theory Spec2Isabelle
  imports Main "HOL-Library.Word"
begin

section \<open>Values shared by the whole client\<close>

text \<open>
  The client (checkly.go, types.go) is a thin layer over three library packages:
  encoding/json, net/http and net/http/httputil.  The embedding keeps the control flow of
  every function of checkly.go and the field list and struct tags of every type of
  types.go.  What the libraries and the remote server do is not part of the repository;
  it enters the model through the record \<open>env\<close> below, over which the theorems quantify.

  JSON documents are handled as syntax trees.  A number literal without fraction and
  exponent is \<open>JInt\<close>; every other number literal is \<open>JFrac\<close> with its text.  An object
  keeps its members in document order, duplicates included, because the decoder
  processes them in that order.
\<close>

datatype json =
    JNull
  | JBool bool
  | JInt int
  | JFrac string
  | JStr string
  | JArr "json list"
  | JObj "(string \<times> json) list"

text \<open>
  Go errors are values.  \<open>LibError\<close> is an error produced inside a library or by the
  network, named by its message.  The other constructors are the errors the client and
  encoding/json build; each \<open>Errorf_\<close> constructor stands for one \<open>fmt.Errorf\<close> call of
  checkly.go and carries the arguments of that call:
  \<^item> \<open>Errorf_create_request e\<close>: "failed to create HTTP request: %v"
  \<^item> \<open>Errorf_dump_request e\<close>: "error dumping HTTP request: %v"
  \<^item> \<open>Errorf_request_failed e\<close>: "HTTP request failed: %v"
  \<^item> \<open>Errorf_unexpected_status status res\<close>: "unexpected response status %d: %q"
  \<^item> \<open>Errorf_decoding res e\<close>: "decoding error for data %s: %v"
  \<open>UnmarshalTypeError value type\<close> is json.UnmarshalTypeError (the kind of the JSON
  value and the Go type it could not be stored in); \<open>MarshalerError e\<close> is
  json.MarshalerError wrapping the error of a MarshalJSON method.
\<close>

datatype error =
    LibError string
  | UnmarshalTypeError string string
  | MarshalerError error
  | Errorf_create_request error
  | Errorf_dump_request error
  | Errorf_request_failed error
  | Errorf_unexpected_status int string
  | Errorf_decoding string error

text \<open>Go's \<open>int\<close> and \<open>int64\<close> are 64-bit two's complement integers (64-bit platforms).\<close>

type_synonym go_int = "64 word"

section \<open>types.go: the entities\<close>

text \<open>
  One record per struct, fields in source order.  A Go slice is \<open>'a list option\<close>:
  \<open>None\<close> is the nil slice, which encoding/json writes as \<open>null\<close>, \<open>Some []\<close> the empty
  slice, written as \<open>[]\<close>.  The type \<open>'t\<close> stands for time.Time.
\<close>

record BasicAuth =
  Username :: string
  Password :: string

record KeyValue =
  Key :: string
  Value :: string
  Locked :: bool

record Assertion =
  Edit :: bool
  Order :: go_int
  ArrayIndex :: go_int
  ArraySelector :: go_int
  Source :: string
  Property :: string
  Comparison :: string
  Target :: string

record Request =
  Method :: string
  URL :: string
  FollowRedirects :: bool
  Body :: string
  BodyType :: string
  Headers :: "KeyValue list option"
  QueryParameters :: "KeyValue list option"
  Assertions :: "Assertion list option"
  BasicAuth :: BasicAuth

record EnvironmentVariable =
  Key :: string
  Value :: string
  Locked :: bool

record RunBasedEscalation =
  FailedRunThreshold :: go_int

record TimeBasedEscalation =
  MinutesFailingThreshold :: go_int

record Reminders =
  Amount :: go_int
  Interval :: go_int

record SSLCertificates =
  Enabled :: bool
  AlertThreshold :: go_int

record AlertSettings =
  EscalationType :: string
  RunBasedEscalation :: RunBasedEscalation
  TimeBasedEscalation :: TimeBasedEscalation
  Reminders :: Reminders
  SSLCertificates :: SSLCertificates

record Subscription =
  ID :: string
  CheckID :: string
  AlertChannelID :: go_int
  Activated :: bool

record 't Check =
  ID :: string
  Name :: string
  Type :: string
  Frequency :: go_int
  Activated :: bool
  Muted :: bool
  ShouldFail :: bool
  Locations :: "string list option"
  DegradedResponseTime :: go_int
  MaxResponseTime :: go_int
  Script :: string
  CreatedAt :: 't
  UpdatedAt :: 't
  EnvironmentVariables :: "EnvironmentVariable list option"
  DoubleCheck :: bool
  Tags :: "string list option"
  SSLCheck :: bool
  SSLCheckDomain :: string
  SetupSnippetID :: go_int
  TearDownSnippetID :: go_int
  LocalSetupScript :: string
  LocalTearDownScript :: string
  AlertSettings :: AlertSettings
  UseGlobalAlertSettings :: bool
  Request :: Request
  AlertChannelSubscriptions :: "Subscription list option"

text \<open>
  The client.  \<open>HTTPClient\<close> is a pointer to an http.Client (\<open>None\<close> is the nil
  pointer), \<open>Debug\<close> an io.Writer interface value (\<open>None\<close> is nil); both are handles.
\<close>

record Client =
  apiKey :: string
  URL :: string
  HTTPClient :: "nat option"
  Debug :: "nat option"

text \<open>The zero values of the struct types (Go's \<open>T{}\<close>).\<close>

definition zero_BasicAuth :: BasicAuth where
  "zero_BasicAuth = \<lparr>Username = [], Password = []\<rparr>"

definition zero_KeyValue :: KeyValue where
  "zero_KeyValue = \<lparr>KeyValue.Key = [], KeyValue.Value = [], KeyValue.Locked = False\<rparr>"

definition zero_Assertion :: Assertion where
  "zero_Assertion = \<lparr>Edit = False, Order = 0, ArrayIndex = 0, ArraySelector = 0,
     Source = [], Property = [], Comparison = [], Target = []\<rparr>"

definition zero_Request :: Request where
  "zero_Request = \<lparr>Method = [], Request.URL = [], FollowRedirects = False, Body = [],
     BodyType = [], Headers = None, QueryParameters = None, Assertions = None,
     BasicAuth = zero_BasicAuth\<rparr>"

definition zero_EnvironmentVariable :: EnvironmentVariable where
  "zero_EnvironmentVariable =
     \<lparr>EnvironmentVariable.Key = [], EnvironmentVariable.Value = [],
      EnvironmentVariable.Locked = False\<rparr>"

definition zero_AlertSettings :: AlertSettings where
  "zero_AlertSettings = \<lparr>EscalationType = [],
     RunBasedEscalation = \<lparr>FailedRunThreshold = 0\<rparr>,
     TimeBasedEscalation = \<lparr>MinutesFailingThreshold = 0\<rparr>,
     Reminders = \<lparr>Amount = 0, Interval = 0\<rparr>,
     SSLCertificates = \<lparr>Enabled = False, AlertThreshold = 0\<rparr>\<rparr>"

definition zero_Subscription :: Subscription where
  "zero_Subscription = \<lparr>Subscription.ID = [], CheckID = [], AlertChannelID = 0,
     Subscription.Activated = False\<rparr>"

definition zero_Check :: "'t \<Rightarrow> 't Check" where
  "zero_Check zero_time = \<lparr>Check.ID = [], Name = [], Type = [], Frequency = 0,
     Check.Activated = False, Muted = False, ShouldFail = False, Locations = None,
     DegradedResponseTime = 0, MaxResponseTime = 0, Script = [],
     CreatedAt = zero_time, UpdatedAt = zero_time, EnvironmentVariables = None,
     DoubleCheck = False, Tags = None, SSLCheck = False, SSLCheckDomain = [],
     SetupSnippetID = 0, TearDownSnippetID = 0, LocalSetupScript = [],
     LocalTearDownScript = [], AlertSettings = zero_AlertSettings,
     UseGlobalAlertSettings = False, Request = zero_Request,
     AlertChannelSubscriptions = None\<rparr>"

section \<open>The environment: libraries, network and server\<close>

text \<open>
  An HTTP request as the client builds it and an HTTP response as the transport hands
  it over.  The body of a response is a stream: \<open>resp_body\<close> holds the bytes that can
  be read from it and \<open>resp_read_err\<close> the error the stream ends with, if it does not
  end with EOF.
\<close>

record http_request =
  req_method :: string
  req_url :: string
  req_header :: "(string \<times> string) list"
  req_body :: string

record http_response =
  StatusCode :: int
  resp_body :: string
  resp_read_err :: "error option"

text \<open>
  Everything the client calls but does not define:
  \<^item> \<open>zero_time\<close>: the zero time.Time;
  \<^item> \<open>Time_MarshalJSON\<close>: time.Time.MarshalJSON, the text of the JSON string or an error
    (the year is outside 0..9999);
  \<^item> \<open>Time_UnmarshalJSON\<close>: time.Time.UnmarshalJSON, from the JSON value and the time
    stored so far;
  \<^item> \<open>encode\<close>: the text encoding/json writes for a syntax tree;
  \<^item> \<open>scan\<close>: the first JSON value json.Decoder reads from a text, or its error
    (syntax error, EOF);
  \<^item> \<open>NewRequest_err\<close>: the error of http.NewRequest for a method and a URL
    (invalid method, unparsable URL);
  \<^item> \<open>DumpRequestOut\<close>, \<open>DumpResponse\<close>: the httputil functions;
  \<^item> \<open>Do\<close>: the transport behind an http.Client handle; its answer may depend on the
    requests sent before;
  \<^item> \<open>Write\<close>: the Write method of the writer behind a Debug handle.
\<close>

record 't env =
  zero_time :: 't
  Time_MarshalJSON :: "'t \<Rightarrow> error + string"
  Time_UnmarshalJSON :: "json \<Rightarrow> 't \<Rightarrow> error + 't"
  encode :: "json \<Rightarrow> string"
  scan :: "string \<Rightarrow> error + json"
  NewRequest_err :: "string \<Rightarrow> string \<Rightarrow> error option"
  DumpRequestOut :: "http_request \<Rightarrow> error + string"
  Do :: "nat \<Rightarrow> http_request list \<Rightarrow> http_request \<Rightarrow> error + http_response"
  DumpResponse :: "http_response \<Rightarrow> error + string"
  Write :: "nat \<Rightarrow> string \<Rightarrow> error option"

section \<open>json.Marshal on the entities\<close>

text \<open>
  encoding/json writes the fields of a struct in source order under the name of the
  struct tag.  The option \<open>omitempty\<close> drops a field whose value is false, 0, a nil
  pointer or an empty string, slice or map; it never drops a struct, so the nested
  structs and the two timestamps are always written.
\<close>

definition enc_slice :: "('a \<Rightarrow> json) \<Rightarrow> 'a list option \<Rightarrow> json" where
  "enc_slice f xs = (case xs of None \<Rightarrow> JNull | Some ys \<Rightarrow> JArr (map f ys))"

definition omitempty_string :: "string \<Rightarrow> string \<Rightarrow> (string \<times> json) list" where
  "omitempty_string k s = (if s = [] then [] else [(k, JStr s)])"

definition omitempty_int :: "string \<Rightarrow> go_int \<Rightarrow> (string \<times> json) list" where
  "omitempty_int k n = (if n = 0 then [] else [(k, JInt (sint n))])"

definition omitempty_slice ::
  "('a \<Rightarrow> json) \<Rightarrow> string \<Rightarrow> 'a list option \<Rightarrow> (string \<times> json) list" where
  "omitempty_slice f k xs =
     (case xs of None \<Rightarrow> [] | Some [] \<Rightarrow> [] | Some (y # ys) \<Rightarrow> [(k, JArr (map f (y # ys)))])"

definition enc_BasicAuth :: "BasicAuth \<Rightarrow> json" where
  "enc_BasicAuth b =
     JObj (omitempty_string ''username'' (Username b) @ omitempty_string ''password'' (Password b))"

definition enc_KeyValue :: "KeyValue \<Rightarrow> json" where
  "enc_KeyValue kv = JObj [(''key'', JStr (KeyValue.Key kv)),
     (''value'', JStr (KeyValue.Value kv)), (''locked'', JBool (KeyValue.Locked kv))]"

definition enc_Assertion :: "Assertion \<Rightarrow> json" where
  "enc_Assertion a = JObj [(''edit'', JBool (Edit a)), (''order'', JInt (sint (Order a))),
     (''arrayIndex'', JInt (sint (ArrayIndex a))),
     (''arraySelector'', JInt (sint (ArraySelector a))), (''source'', JStr (Source a)),
     (''property'', JStr (Property a)), (''comparison'', JStr (Comparison a)),
     (''target'', JStr (Target a))]"

definition enc_Request :: "Request \<Rightarrow> json" where
  "enc_Request r = JObj ([(''method'', JStr (Method r)), (''url'', JStr (Request.URL r)),
       (''followRedirects'', JBool (FollowRedirects r)), (''body'', JStr (Body r))]
     @ omitempty_string ''bodyType'' (BodyType r)
     @ [(''headers'', enc_slice enc_KeyValue (Headers r)),
        (''queryParameters'', enc_slice enc_KeyValue (QueryParameters r)),
        (''assertions'', enc_slice enc_Assertion (Assertions r)),
        (''basicAuth'', enc_BasicAuth (BasicAuth r))])"

definition enc_EnvironmentVariable :: "EnvironmentVariable \<Rightarrow> json" where
  "enc_EnvironmentVariable v = JObj [(''key'', JStr (EnvironmentVariable.Key v)),
     (''value'', JStr (EnvironmentVariable.Value v)),
     (''locked'', JBool (EnvironmentVariable.Locked v))]"

definition enc_AlertSettings :: "AlertSettings \<Rightarrow> json" where
  "enc_AlertSettings a = JObj (omitempty_string ''escalationType'' (EscalationType a)
     @ [(''runBasedEscalation'',
           JObj (omitempty_int ''failedRunThreshold''
                   (FailedRunThreshold (RunBasedEscalation a)))),
        (''timeBasedEscalation'',
           JObj (omitempty_int ''minutesFailingThreshold''
                   (MinutesFailingThreshold (TimeBasedEscalation a)))),
        (''reminders'',
           JObj (omitempty_int ''amount'' (Amount (Reminders a))
                 @ omitempty_int ''interval'' (Interval (Reminders a)))),
        (''sslCertificates'',
           JObj [(''enabled'', JBool (Enabled (SSLCertificates a))),
                 (''alertThreshold'', JInt (sint (AlertThreshold (SSLCertificates a))))])])"

definition enc_Subscription :: "Subscription \<Rightarrow> json" where
  "enc_Subscription s = JObj (omitempty_string ''id'' (Subscription.ID s)
     @ omitempty_string ''checkId'' (CheckID s)
     @ omitempty_int ''alertChannelId'' (AlertChannelID s)
     @ [(''activated'', JBool (Subscription.Activated s))])"

text \<open>
  The members of a Check on the wire, given the texts of the two timestamps.
\<close>

definition Check_members :: "string \<Rightarrow> string \<Rightarrow> 't Check \<Rightarrow> (string \<times> json) list" where
  "Check_members created updated c =
     [(''id'', JStr (Check.ID c)), (''name'', JStr (Name c)), (''checkType'', JStr (Type c)),
      (''frequency'', JInt (sint (Frequency c))), (''activated'', JBool (Check.Activated c)),
      (''muted'', JBool (Muted c)), (''shouldFail'', JBool (ShouldFail c)),
      (''locations'', enc_slice JStr (Locations c)),
      (''degradedResponseTime'', JInt (sint (DegradedResponseTime c))),
      (''maxResponseTime'', JInt (sint (MaxResponseTime c)))]
     @ omitempty_string ''script'' (Script c)
     @ [(''created_at'', JStr created), (''updated_at'', JStr updated),
        (''environmentVariables'', enc_slice enc_EnvironmentVariable (EnvironmentVariables c)),
        (''doubleCheck'', JBool (DoubleCheck c))]
     @ omitempty_slice JStr ''tags'' (Tags c)
     @ [(''sslCheck'', JBool (SSLCheck c)), (''sslCheckDomain'', JStr (SSLCheckDomain c))]
     @ omitempty_int ''setupSnippetId'' (SetupSnippetID c)
     @ omitempty_int ''tearDownSnippetId'' (TearDownSnippetID c)
     @ omitempty_string ''localSetupScript'' (LocalSetupScript c)
     @ omitempty_string ''localTearDownScript'' (LocalTearDownScript c)
     @ [(''alertSettings'', enc_AlertSettings (AlertSettings c)),
        (''useGlobalAlertSettings'', JBool (UseGlobalAlertSettings c)),
        (''request'', enc_Request (Request c)),
        (''alertChannelSubscriptions'',
           enc_slice enc_Subscription (AlertChannelSubscriptions c))]"

text \<open>
  The syntax tree of a Check.  The only fields whose encoding can fail are the two
  timestamps; the encoder stops at the first failure, in field order.
\<close>

definition enc_Check :: "'t env \<Rightarrow> 't Check \<Rightarrow> error + json" where
  "enc_Check E c =
     (case Time_MarshalJSON E (CreatedAt c) of
        Inl err \<Rightarrow> Inl (MarshalerError err)
      | Inr created \<Rightarrow>
          (case Time_MarshalJSON E (UpdatedAt c) of
             Inl err \<Rightarrow> Inl (MarshalerError err)
           | Inr updated \<Rightarrow> Inr (JObj (Check_members created updated c))))"

definition json_Marshal :: "'t env \<Rightarrow> 't Check \<Rightarrow> error + string" where
  "json_Marshal E c =
     (case enc_Check E c of Inl err \<Rightarrow> Inl err | Inr j \<Rightarrow> Inr (encode E j))"

section \<open>json.Decoder.Decode into the entities\<close>

subsection \<open>Matching an object key with a struct field\<close>

text \<open>
  For each member of a JSON object the decoder looks for the struct field whose name is
  the key, and otherwise for the first field whose name equals the key under Unicode
  simple case folding (bytes.EqualFold).  The field names here are ASCII, so the only
  runes outside ASCII that fold onto one of their letters are U+212A (Kelvin sign, onto
  k; UTF-8 E2 84 AA) and U+017F (long s, onto s; UTF-8 C5 BF).  \<open>fold_key\<close> maps a
  UTF-8 string to the representative of its folding class: ASCII capitals become small
  letters and the two runes above become k and s.
\<close>

definition fold_char :: "char \<Rightarrow> char" where
  "fold_char c = (let n = (of_char c :: nat) in if 65 \<le> n \<and> n \<le> 90 then char_of (n + 32) else c)"

fun fold_key :: "string \<Rightarrow> string" where
  "fold_key (a # b # c # cs) =
     (if a = CHR 0xE2 \<and> b = CHR 0x84 \<and> c = CHR 0xAA then CHR ''k'' # fold_key cs
      else if a = CHR 0xC5 \<and> b = CHR 0xBF then CHR ''s'' # fold_key (c # cs)
      else fold_char a # fold_key (b # c # cs))"
| "fold_key [a, b] =
     (if a = CHR 0xC5 \<and> b = CHR 0xBF then [CHR ''s''] else [fold_char a, fold_char b])"
| "fold_key [a] = [fold_char a]"
| "fold_key [] = []"

definition field_for :: "string \<Rightarrow> string list \<Rightarrow> string option" where
  "field_for key names =
     (if key \<in> set names then Some key
      else find (\<lambda>n. fold_key n = fold_key key) names)"

subsection \<open>Storing a JSON value in a Go value\<close>

text \<open>
  A decoder takes the JSON value, the Go value stored so far and the error saved so far
  (decodeState.savedError).  A JSON value of the wrong kind saves an UnmarshalTypeError,
  unless one is saved already, leaves the Go value as it is, and decoding goes on; the
  saved error is returned at the end.  An error of an UnmarshalJSON method (here: of
  time.Time) stops the decoding at once: that is \<open>Inl\<close>.  JSON \<open>null\<close> leaves strings,
  numbers, booleans and structs as they are and makes a slice nil.
\<close>

type_synonym 'a dec = "json \<Rightarrow> 'a \<Rightarrow> error option \<Rightarrow> error + ('a \<times> error option)"

fun kind :: "json \<Rightarrow> string" where
  "kind JNull = ''null''"
| "kind (JBool b) = ''bool''"
| "kind (JInt i) = ''number''"
| "kind (JFrac s) = ''number''"
| "kind (JStr s) = ''string''"
| "kind (JArr xs) = ''array''"
| "kind (JObj kvs) = ''object''"

definition saveError :: "error \<Rightarrow> error option \<Rightarrow> error option" where
  "saveError err sv = (case sv of None \<Rightarrow> Some err | Some e \<Rightarrow> Some e)"

definition mismatch :: "json \<Rightarrow> string \<Rightarrow> 'a \<Rightarrow> error option \<Rightarrow> error + ('a \<times> error option)" where
  "mismatch j ty v sv = Inr (v, saveError (UnmarshalTypeError (kind j) ty) sv)"

definition dec_string :: "string dec" where
  "dec_string j v sv =
     (case j of JNull \<Rightarrow> Inr (v, sv) | JStr s \<Rightarrow> Inr (s, sv) | _ \<Rightarrow> mismatch j ''string'' v sv)"

definition dec_bool :: "bool dec" where
  "dec_bool j v sv =
     (case j of JNull \<Rightarrow> Inr (v, sv) | JBool b \<Rightarrow> Inr (b, sv) | _ \<Rightarrow> mismatch j ''bool'' v sv)"

text \<open>
  A number is stored in an int field by strconv.ParseInt(s, 10, 64), which accepts a
  literal without fraction and exponent between \<open>-2^63\<close> and \<open>2^63 - 1\<close>.
\<close>

definition dec_int :: "go_int dec" where
  "dec_int j v sv =
     (case j of
        JNull \<Rightarrow> Inr (v, sv)
      | JInt i \<Rightarrow>
          if - (2 ^ 63) \<le> i \<and> i < 2 ^ 63 then Inr (word_of_int i, sv)
          else mismatch j ''int'' v sv
      | _ \<Rightarrow> mismatch j ''int'' v sv)"

definition dec_time :: "'t env \<Rightarrow> 't dec" where
  "dec_time E j v sv =
     (case Time_UnmarshalJSON E j v of Inl err \<Rightarrow> Inl err | Inr t \<Rightarrow> Inr (t, sv))"

text \<open>
  The elements of a JSON array are decoded one after the other, each into a zero value
  of the element type, and the slice is replaced by the result.  (When a key occurs
  twice in a document, Go decodes the elements of the second array into what is left in
  the backing array of the first; the model starts from zero values there too.)
\<close>

fun dec_elems :: "'a dec \<Rightarrow> 'a \<Rightarrow> json list \<Rightarrow> error option \<Rightarrow> error + ('a list \<times> error option)" where
  "dec_elems d z [] sv = Inr ([], sv)"
| "dec_elems d z (j # js) sv =
     (case d j z sv of
        Inl err \<Rightarrow> Inl err
      | Inr (x, sv') \<Rightarrow>
          (case dec_elems d z js sv' of
             Inl err \<Rightarrow> Inl err
           | Inr (xs, sv'') \<Rightarrow> Inr (x # xs, sv'')))"

definition dec_slice :: "'a dec \<Rightarrow> 'a \<Rightarrow> string \<Rightarrow> 'a list option dec" where
  "dec_slice d z ty j v sv =
     (case j of
        JNull \<Rightarrow> Inr (None, sv)
      | JArr js \<Rightarrow>
          (case dec_elems d z js sv of
             Inl err \<Rightarrow> Inl err
           | Inr (xs, sv') \<Rightarrow> Inr (Some xs, sv'))
      | _ \<Rightarrow> mismatch j ty v sv)"

text \<open>
  The members of an object are stored in document order; a key that matches no field
  is skipped.  \<open>setf\<close> stores one value in the field with the given name.
\<close>

fun dec_object ::
  "string list \<Rightarrow> (string \<Rightarrow> 'a dec) \<Rightarrow> (string \<times> json) list \<Rightarrow> 'a \<Rightarrow> error option
     \<Rightarrow> error + ('a \<times> error option)" where
  "dec_object names setf [] v sv = Inr (v, sv)"
| "dec_object names setf ((k, j) # kvs) v sv =
     (case field_for k names of
        None \<Rightarrow> dec_object names setf kvs v sv
      | Some f \<Rightarrow>
          (case setf f j v sv of
             Inl err \<Rightarrow> Inl err
           | Inr (v', sv') \<Rightarrow> dec_object names setf kvs v' sv'))"

definition dec_struct :: "string list \<Rightarrow> (string \<Rightarrow> 'a dec) \<Rightarrow> string \<Rightarrow> 'a dec" where
  "dec_struct names setf ty j v sv =
     (case j of
        JNull \<Rightarrow> Inr (v, sv)
      | JObj kvs \<Rightarrow> dec_object names setf kvs v sv
      | _ \<Rightarrow> mismatch j ty v sv)"

text \<open>\<open>upd r f\<close> puts a decoded field value back into its struct.\<close>

definition upd :: "error + ('v \<times> error option) \<Rightarrow> ('v \<Rightarrow> 'a) \<Rightarrow> error + ('a \<times> error option)" where
  "upd r f = (case r of Inl err \<Rightarrow> Inl err | Inr (x, sv) \<Rightarrow> Inr (f x, sv))"

subsection \<open>The decoders of the struct types\<close>

text \<open>
  For each struct: the names of its struct tags in field order, the function that
  stores a JSON value in the field of a given name, and the decoder of the struct.
\<close>

definition BasicAuth_names :: "string list" where
  "BasicAuth_names = [''username'', ''password'']"

definition set_BasicAuth_field :: "string \<Rightarrow> BasicAuth dec" where
  "set_BasicAuth_field f j b sv =
    (if f = ''username'' then upd (dec_string j (Username b) sv) (\<lambda>x. b\<lparr>Username := x\<rparr>)
     else if f = ''password'' then upd (dec_string j (Password b) sv) (\<lambda>x. b\<lparr>Password := x\<rparr>)
     else Inr (b, sv))"

definition dec_BasicAuth :: "BasicAuth dec" where
  "dec_BasicAuth = dec_struct BasicAuth_names (set_BasicAuth_field) ''checkly.BasicAuth''"

definition KeyValue_names :: "string list" where
  "KeyValue_names = [''key'', ''value'', ''locked'']"

definition set_KeyValue_field :: "string \<Rightarrow> KeyValue dec" where
  "set_KeyValue_field f j kv sv =
    (if f = ''key'' then upd (dec_string j (KeyValue.Key kv) sv) (\<lambda>x. kv\<lparr>KeyValue.Key := x\<rparr>)
     else if f = ''value'' then upd (dec_string j (KeyValue.Value kv) sv) (\<lambda>x. kv\<lparr>KeyValue.Value := x\<rparr>)
     else if f = ''locked'' then upd (dec_bool j (KeyValue.Locked kv) sv) (\<lambda>x. kv\<lparr>KeyValue.Locked := x\<rparr>)
     else Inr (kv, sv))"

definition dec_KeyValue :: "KeyValue dec" where
  "dec_KeyValue = dec_struct KeyValue_names (set_KeyValue_field) ''checkly.KeyValue''"

definition Assertion_names :: "string list" where
  "Assertion_names = [''edit'', ''order'', ''arrayIndex'', ''arraySelector'', ''source'', ''property'', ''comparison'', ''target'']"

definition set_Assertion_field :: "string \<Rightarrow> Assertion dec" where
  "set_Assertion_field f j a sv =
    (if f = ''edit'' then upd (dec_bool j (Edit a) sv) (\<lambda>x. a\<lparr>Edit := x\<rparr>)
     else if f = ''order'' then upd (dec_int j (Order a) sv) (\<lambda>x. a\<lparr>Order := x\<rparr>)
     else if f = ''arrayIndex'' then upd (dec_int j (ArrayIndex a) sv) (\<lambda>x. a\<lparr>ArrayIndex := x\<rparr>)
     else if f = ''arraySelector'' then upd (dec_int j (ArraySelector a) sv) (\<lambda>x. a\<lparr>ArraySelector := x\<rparr>)
     else if f = ''source'' then upd (dec_string j (Source a) sv) (\<lambda>x. a\<lparr>Source := x\<rparr>)
     else if f = ''property'' then upd (dec_string j (Property a) sv) (\<lambda>x. a\<lparr>Property := x\<rparr>)
     else if f = ''comparison'' then upd (dec_string j (Comparison a) sv) (\<lambda>x. a\<lparr>Comparison := x\<rparr>)
     else if f = ''target'' then upd (dec_string j (Target a) sv) (\<lambda>x. a\<lparr>Target := x\<rparr>)
     else Inr (a, sv))"

definition dec_Assertion :: "Assertion dec" where
  "dec_Assertion = dec_struct Assertion_names (set_Assertion_field) ''checkly.Assertion''"

definition Request_names :: "string list" where
  "Request_names = [''method'', ''url'', ''followRedirects'', ''body'', ''bodyType'', ''headers'', ''queryParameters'', ''assertions'', ''basicAuth'']"

definition set_Request_field :: "string \<Rightarrow> Request dec" where
  "set_Request_field f j r sv =
    (if f = ''method'' then upd (dec_string j (Method r) sv) (\<lambda>x. r\<lparr>Method := x\<rparr>)
     else if f = ''url'' then upd (dec_string j (Request.URL r) sv) (\<lambda>x. r\<lparr>Request.URL := x\<rparr>)
     else if f = ''followRedirects'' then upd (dec_bool j (FollowRedirects r) sv) (\<lambda>x. r\<lparr>FollowRedirects := x\<rparr>)
     else if f = ''body'' then upd (dec_string j (Body r) sv) (\<lambda>x. r\<lparr>Body := x\<rparr>)
     else if f = ''bodyType'' then upd (dec_string j (BodyType r) sv) (\<lambda>x. r\<lparr>BodyType := x\<rparr>)
     else if f = ''headers'' then upd (dec_slice dec_KeyValue zero_KeyValue ''[]checkly.KeyValue'' j (Headers r) sv) (\<lambda>x. r\<lparr>Headers := x\<rparr>)
     else if f = ''queryParameters'' then upd (dec_slice dec_KeyValue zero_KeyValue ''[]checkly.KeyValue'' j (QueryParameters r) sv) (\<lambda>x. r\<lparr>QueryParameters := x\<rparr>)
     else if f = ''assertions'' then upd (dec_slice dec_Assertion zero_Assertion ''[]checkly.Assertion'' j (Assertions r) sv) (\<lambda>x. r\<lparr>Assertions := x\<rparr>)
     else if f = ''basicAuth'' then upd (dec_BasicAuth j (BasicAuth r) sv) (\<lambda>x. r\<lparr>BasicAuth := x\<rparr>)
     else Inr (r, sv))"

definition dec_Request :: "Request dec" where
  "dec_Request = dec_struct Request_names (set_Request_field) ''checkly.Request''"

definition EnvironmentVariable_names :: "string list" where
  "EnvironmentVariable_names = [''key'', ''value'', ''locked'']"

definition set_EnvironmentVariable_field :: "string \<Rightarrow> EnvironmentVariable dec" where
  "set_EnvironmentVariable_field f j v sv =
    (if f = ''key'' then upd (dec_string j (EnvironmentVariable.Key v) sv) (\<lambda>x. v\<lparr>EnvironmentVariable.Key := x\<rparr>)
     else if f = ''value'' then upd (dec_string j (EnvironmentVariable.Value v) sv) (\<lambda>x. v\<lparr>EnvironmentVariable.Value := x\<rparr>)
     else if f = ''locked'' then upd (dec_bool j (EnvironmentVariable.Locked v) sv) (\<lambda>x. v\<lparr>EnvironmentVariable.Locked := x\<rparr>)
     else Inr (v, sv))"

definition dec_EnvironmentVariable :: "EnvironmentVariable dec" where
  "dec_EnvironmentVariable = dec_struct EnvironmentVariable_names (set_EnvironmentVariable_field) ''checkly.EnvironmentVariable''"

definition RunBasedEscalation_names :: "string list" where
  "RunBasedEscalation_names = [''failedRunThreshold'']"

definition set_RunBasedEscalation_field :: "string \<Rightarrow> RunBasedEscalation dec" where
  "set_RunBasedEscalation_field f j r sv =
    (if f = ''failedRunThreshold'' then upd (dec_int j (FailedRunThreshold r) sv) (\<lambda>x. r\<lparr>FailedRunThreshold := x\<rparr>)
     else Inr (r, sv))"

definition dec_RunBasedEscalation :: "RunBasedEscalation dec" where
  "dec_RunBasedEscalation = dec_struct RunBasedEscalation_names (set_RunBasedEscalation_field) ''checkly.RunBasedEscalation''"

definition TimeBasedEscalation_names :: "string list" where
  "TimeBasedEscalation_names = [''minutesFailingThreshold'']"

definition set_TimeBasedEscalation_field :: "string \<Rightarrow> TimeBasedEscalation dec" where
  "set_TimeBasedEscalation_field f j t sv =
    (if f = ''minutesFailingThreshold'' then upd (dec_int j (MinutesFailingThreshold t) sv) (\<lambda>x. t\<lparr>MinutesFailingThreshold := x\<rparr>)
     else Inr (t, sv))"

definition dec_TimeBasedEscalation :: "TimeBasedEscalation dec" where
  "dec_TimeBasedEscalation = dec_struct TimeBasedEscalation_names (set_TimeBasedEscalation_field) ''checkly.TimeBasedEscalation''"

definition Reminders_names :: "string list" where
  "Reminders_names = [''amount'', ''interval'']"

definition set_Reminders_field :: "string \<Rightarrow> Reminders dec" where
  "set_Reminders_field f j r sv =
    (if f = ''amount'' then upd (dec_int j (Amount r) sv) (\<lambda>x. r\<lparr>Amount := x\<rparr>)
     else if f = ''interval'' then upd (dec_int j (Interval r) sv) (\<lambda>x. r\<lparr>Interval := x\<rparr>)
     else Inr (r, sv))"

definition dec_Reminders :: "Reminders dec" where
  "dec_Reminders = dec_struct Reminders_names (set_Reminders_field) ''checkly.Reminders''"

definition SSLCertificates_names :: "string list" where
  "SSLCertificates_names = [''enabled'', ''alertThreshold'']"

definition set_SSLCertificates_field :: "string \<Rightarrow> SSLCertificates dec" where
  "set_SSLCertificates_field f j c sv =
    (if f = ''enabled'' then upd (dec_bool j (Enabled c) sv) (\<lambda>x. c\<lparr>Enabled := x\<rparr>)
     else if f = ''alertThreshold'' then upd (dec_int j (AlertThreshold c) sv) (\<lambda>x. c\<lparr>AlertThreshold := x\<rparr>)
     else Inr (c, sv))"

definition dec_SSLCertificates :: "SSLCertificates dec" where
  "dec_SSLCertificates = dec_struct SSLCertificates_names (set_SSLCertificates_field) ''checkly.SSLCertificates''"

definition AlertSettings_names :: "string list" where
  "AlertSettings_names = [''escalationType'', ''runBasedEscalation'', ''timeBasedEscalation'', ''reminders'', ''sslCertificates'']"

definition set_AlertSettings_field :: "string \<Rightarrow> AlertSettings dec" where
  "set_AlertSettings_field f j a sv =
    (if f = ''escalationType'' then upd (dec_string j (EscalationType a) sv) (\<lambda>x. a\<lparr>EscalationType := x\<rparr>)
     else if f = ''runBasedEscalation'' then upd (dec_RunBasedEscalation j (RunBasedEscalation a) sv) (\<lambda>x. a\<lparr>RunBasedEscalation := x\<rparr>)
     else if f = ''timeBasedEscalation'' then upd (dec_TimeBasedEscalation j (TimeBasedEscalation a) sv) (\<lambda>x. a\<lparr>TimeBasedEscalation := x\<rparr>)
     else if f = ''reminders'' then upd (dec_Reminders j (Reminders a) sv) (\<lambda>x. a\<lparr>Reminders := x\<rparr>)
     else if f = ''sslCertificates'' then upd (dec_SSLCertificates j (SSLCertificates a) sv) (\<lambda>x. a\<lparr>SSLCertificates := x\<rparr>)
     else Inr (a, sv))"

definition dec_AlertSettings :: "AlertSettings dec" where
  "dec_AlertSettings = dec_struct AlertSettings_names (set_AlertSettings_field) ''checkly.AlertSettings''"

definition Subscription_names :: "string list" where
  "Subscription_names = [''id'', ''checkId'', ''alertChannelId'', ''activated'']"

definition set_Subscription_field :: "string \<Rightarrow> Subscription dec" where
  "set_Subscription_field f j s sv =
    (if f = ''id'' then upd (dec_string j (Subscription.ID s) sv) (\<lambda>x. s\<lparr>Subscription.ID := x\<rparr>)
     else if f = ''checkId'' then upd (dec_string j (CheckID s) sv) (\<lambda>x. s\<lparr>CheckID := x\<rparr>)
     else if f = ''alertChannelId'' then upd (dec_int j (AlertChannelID s) sv) (\<lambda>x. s\<lparr>AlertChannelID := x\<rparr>)
     else if f = ''activated'' then upd (dec_bool j (Subscription.Activated s) sv) (\<lambda>x. s\<lparr>Subscription.Activated := x\<rparr>)
     else Inr (s, sv))"

definition dec_Subscription :: "Subscription dec" where
  "dec_Subscription = dec_struct Subscription_names (set_Subscription_field) ''checkly.Subscription''"

definition Check_names :: "string list" where
  "Check_names = [''id'', ''name'', ''checkType'', ''frequency'', ''activated'', ''muted'', ''shouldFail'', ''locations'', ''degradedResponseTime'', ''maxResponseTime'', ''script'', ''created_at'', ''updated_at'', ''environmentVariables'', ''doubleCheck'', ''tags'', ''sslCheck'', ''sslCheckDomain'', ''setupSnippetId'', ''tearDownSnippetId'', ''localSetupScript'', ''localTearDownScript'', ''alertSettings'', ''useGlobalAlertSettings'', ''request'', ''alertChannelSubscriptions'']"

definition set_Check_field :: "'t env \<Rightarrow> string \<Rightarrow> 't Check dec" where
  "set_Check_field E f j c sv =
    (if f = ''id'' then upd (dec_string j (Check.ID c) sv) (\<lambda>x. c\<lparr>Check.ID := x\<rparr>)
     else if f = ''name'' then upd (dec_string j (Name c) sv) (\<lambda>x. c\<lparr>Name := x\<rparr>)
     else if f = ''checkType'' then upd (dec_string j (Type c) sv) (\<lambda>x. c\<lparr>Type := x\<rparr>)
     else if f = ''frequency'' then upd (dec_int j (Frequency c) sv) (\<lambda>x. c\<lparr>Frequency := x\<rparr>)
     else if f = ''activated'' then upd (dec_bool j (Check.Activated c) sv) (\<lambda>x. c\<lparr>Check.Activated := x\<rparr>)
     else if f = ''muted'' then upd (dec_bool j (Muted c) sv) (\<lambda>x. c\<lparr>Muted := x\<rparr>)
     else if f = ''shouldFail'' then upd (dec_bool j (ShouldFail c) sv) (\<lambda>x. c\<lparr>ShouldFail := x\<rparr>)
     else if f = ''locations'' then upd (dec_slice dec_string [] ''[]string'' j (Locations c) sv) (\<lambda>x. c\<lparr>Locations := x\<rparr>)
     else if f = ''degradedResponseTime'' then upd (dec_int j (DegradedResponseTime c) sv) (\<lambda>x. c\<lparr>DegradedResponseTime := x\<rparr>)
     else if f = ''maxResponseTime'' then upd (dec_int j (MaxResponseTime c) sv) (\<lambda>x. c\<lparr>MaxResponseTime := x\<rparr>)
     else if f = ''script'' then upd (dec_string j (Script c) sv) (\<lambda>x. c\<lparr>Script := x\<rparr>)
     else if f = ''created_at'' then upd (dec_time E j (CreatedAt c) sv) (\<lambda>x. c\<lparr>CreatedAt := x\<rparr>)
     else if f = ''updated_at'' then upd (dec_time E j (UpdatedAt c) sv) (\<lambda>x. c\<lparr>UpdatedAt := x\<rparr>)
     else if f = ''environmentVariables'' then upd (dec_slice dec_EnvironmentVariable zero_EnvironmentVariable ''[]checkly.EnvironmentVariable'' j (EnvironmentVariables c) sv) (\<lambda>x. c\<lparr>EnvironmentVariables := x\<rparr>)
     else if f = ''doubleCheck'' then upd (dec_bool j (DoubleCheck c) sv) (\<lambda>x. c\<lparr>DoubleCheck := x\<rparr>)
     else if f = ''tags'' then upd (dec_slice dec_string [] ''[]string'' j (Tags c) sv) (\<lambda>x. c\<lparr>Tags := x\<rparr>)
     else if f = ''sslCheck'' then upd (dec_bool j (SSLCheck c) sv) (\<lambda>x. c\<lparr>SSLCheck := x\<rparr>)
     else if f = ''sslCheckDomain'' then upd (dec_string j (SSLCheckDomain c) sv) (\<lambda>x. c\<lparr>SSLCheckDomain := x\<rparr>)
     else if f = ''setupSnippetId'' then upd (dec_int j (SetupSnippetID c) sv) (\<lambda>x. c\<lparr>SetupSnippetID := x\<rparr>)
     else if f = ''tearDownSnippetId'' then upd (dec_int j (TearDownSnippetID c) sv) (\<lambda>x. c\<lparr>TearDownSnippetID := x\<rparr>)
     else if f = ''localSetupScript'' then upd (dec_string j (LocalSetupScript c) sv) (\<lambda>x. c\<lparr>LocalSetupScript := x\<rparr>)
     else if f = ''localTearDownScript'' then upd (dec_string j (LocalTearDownScript c) sv) (\<lambda>x. c\<lparr>LocalTearDownScript := x\<rparr>)
     else if f = ''alertSettings'' then upd (dec_AlertSettings j (AlertSettings c) sv) (\<lambda>x. c\<lparr>AlertSettings := x\<rparr>)
     else if f = ''useGlobalAlertSettings'' then upd (dec_bool j (UseGlobalAlertSettings c) sv) (\<lambda>x. c\<lparr>UseGlobalAlertSettings := x\<rparr>)
     else if f = ''request'' then upd (dec_Request j (Request c) sv) (\<lambda>x. c\<lparr>Request := x\<rparr>)
     else if f = ''alertChannelSubscriptions'' then upd (dec_slice dec_Subscription zero_Subscription ''[]checkly.Subscription'' j (AlertChannelSubscriptions c) sv) (\<lambda>x. c\<lparr>AlertChannelSubscriptions := x\<rparr>)
     else Inr (c, sv))"

definition dec_Check :: "'t env \<Rightarrow> 't Check dec" where
  "dec_Check E = dec_struct Check_names (set_Check_field E) ''checkly.Check''"

text \<open>
  \<open>json.NewDecoder(strings.NewReader(res)).Decode(&result)\<close>: read the first JSON
  value of the text, store it in \<open>result\<close>, and return the saved error if there is one.
\<close>

definition Decode :: "'t env \<Rightarrow> string \<Rightarrow> 't Check \<Rightarrow> error + 't Check" where
  "Decode E res result =
     (case scan E res of
        Inl err \<Rightarrow> Inl err
      | Inr j \<Rightarrow>
          (case dec_Check E j result None of
             Inl err \<Rightarrow> Inl err
           | Inr (c, Some err) \<Rightarrow> Inl err
           | Inr (c, None) \<Rightarrow> Inr c))"

section \<open>checkly.go: the transport\<close>

text \<open>
  The methods have the receiver \<open>c *Client\<close>, so the client they read is an object in
  memory that they could write to.  The state \<open>world\<close> holds that object, the requests
  handed to the HTTP transport so far (\<open>sent\<close>, in order) and what has been written to
  debug writers (\<open>debug_out\<close>: the writer and the text of each successful write).  Each
  function takes the state and returns the new one with its result.

  A call either returns or panics: \<open>c.HTTPClient.Do\<close> on a nil \<open>HTTPClient\<close> is a nil
  pointer dereference.
\<close>

record world =
  client :: Client
  sent :: "http_request list"
  debug_out :: "(nat \<times> string) list"

datatype 'a outcome = Panic | Return 'a

text \<open>
  \<open>http.NewRequest(method, url, bytes.NewBuffer(data))\<close>; a nil \<open>data\<close> is the empty
  byte string.
\<close>

definition NewRequest :: "'t env \<Rightarrow> string \<Rightarrow> string \<Rightarrow> string \<Rightarrow> error + http_request" where
  "NewRequest E method url data =
     (case NewRequest_err E method url of
        Some err \<Rightarrow> Inl err
      | None \<Rightarrow> Inr \<lparr>req_method = method, req_url = url, req_header = [], req_body = data\<rparr>)"

text \<open>\<open>req.Header.Add(key, value)\<close>; net/http sends the key in its canonical spelling.\<close>

definition Header_Add :: "string \<Rightarrow> string \<Rightarrow> http_request \<Rightarrow> http_request" where
  "Header_Add key val req = req\<lparr>req_header := req_header req @ [(key, val)]\<rparr>"

text \<open>
  \<open>fmt.Fprintln(w, s)\<close> writes \<open>s\<close> and a newline to the writer; the client drops the
  byte count and the error it returns.
\<close>

definition Fprintln :: "'t env \<Rightarrow> nat \<Rightarrow> string \<Rightarrow> world \<Rightarrow> world" where
  "Fprintln E w s W =
     (case Write E w (s @ [CHR 0x0A]) of
        None \<Rightarrow> W\<lparr>debug_out := debug_out W @ [(w, s @ [CHR 0x0A])]\<rparr>
      | Some err \<Rightarrow> W)"

text \<open>
  \<open>dumpResponse\<close>: the error of httputil.DumpResponse is dropped, and the dump is then
  nil, printed as the empty string.
\<close>

definition dumpResponse :: "'t env \<Rightarrow> nat \<Rightarrow> http_response \<Rightarrow> world \<Rightarrow> world" where
  "dumpResponse E w resp W =
     (let responseDump = (case DumpResponse E resp of Inl err \<Rightarrow> [] | Inr d \<Rightarrow> d)
      in Fprintln E w [] (Fprintln E w responseDump W))"

text \<open>\<open>ioutil.ReadAll(resp.Body)\<close>: the bytes read and the error, if any.\<close>

definition ReadAll :: "http_response \<Rightarrow> string \<times> error option" where
  "ReadAll resp = (resp_body resp, resp_read_err resp)"

text \<open>
  \<open>MakeAPICall\<close> (checkly.go, lines 104 to 133), statement by statement: build the
  request, add the two headers, dump the request if \<open>c.Debug\<close> is set, send it, dump
  the response if \<open>c.Debug\<close> is set, read the body.  The deferred \<open>resp.Body.Close()\<close>
  returns nothing the function looks at.
\<close>

definition MakeAPICall ::
  "'t env \<Rightarrow> string \<Rightarrow> string \<Rightarrow> string \<Rightarrow> world
     \<Rightarrow> (int \<times> string \<times> error option) outcome \<times> world" where
  "MakeAPICall E method URL' data W =
     (let c = client W;
          requestURL = Client.URL c @ ''/v1/'' @ URL'
      in case NewRequest E method requestURL data of
           Inl err \<Rightarrow> (Return (0, [], Some (Errorf_create_request err)), W)
         | Inr req0 \<Rightarrow>
             (let req = Header_Add ''content-type'' ''application/json''
                          (Header_Add ''Authorization'' (''Bearer '' @ apiKey c) req0);
                  dumped =
                    (case Debug c of
                       None \<Rightarrow> Inr W
                     | Some w \<Rightarrow>
                         (case DumpRequestOut E req of
                            Inl err \<Rightarrow> Inl err
                          | Inr requestDump \<Rightarrow>
                              Inr (Fprintln E w [] (Fprintln E w requestDump W))))
              in case dumped of
                   Inl err \<Rightarrow> (Return (0, [], Some (Errorf_dump_request err)), W)
                 | Inr W1 \<Rightarrow>
                     (case HTTPClient c of
                        None \<Rightarrow> (Panic, W1)
                      | Some h \<Rightarrow>
                          (let W2 = W1\<lparr>sent := sent W1 @ [req]\<rparr>
                           in case Do E h (sent W1) req of
                                Inl err \<Rightarrow> (Return (0, [], Some (Errorf_request_failed err)), W2)
                              | Inr resp \<Rightarrow>
                                  (let W3 = (case Debug c of
                                               None \<Rightarrow> W2
                                             | Some w \<Rightarrow> dumpResponse E w resp W2)
                                   in case ReadAll resp of
                                        (res, Some err) \<Rightarrow> (Return (StatusCode resp, [], Some err), W3)
                                      | (res, None) \<Rightarrow> (Return (StatusCode resp, res, None), W3))))))"

section \<open>checkly.go: the four operations\<close>

text \<open>
  \<open>Create\<close> (lines 32 to 49), \<open>Update\<close> (53 to 70), \<open>Delete\<close> (74 to 83) and \<open>Get\<close>
  (87 to 100).  The status constants are http.StatusCreated = 201, http.StatusOK = 200
  and http.StatusNoContent = 204, the methods http.MethodPost = "POST" and so on.  A
  result pairs the returned value with the returned error, \<open>None\<close> for nil.
\<close>

definition Create :: "'t env \<Rightarrow> 't Check \<Rightarrow> world \<Rightarrow> (string \<times> error option) outcome \<times> world" where
  "Create E check W =
     (case json_Marshal E check of
        Inl err \<Rightarrow> (Return ([], Some err), W)
      | Inr data \<Rightarrow>
          (case MakeAPICall E ''POST'' ''checks'' data W of
             (Panic, W') \<Rightarrow> (Panic, W')
           | (Return (status, res, Some err), W') \<Rightarrow> (Return ([], Some err), W')
           | (Return (status, res, None), W') \<Rightarrow>
               if status \<noteq> 201
               then (Return ([], Some (Errorf_unexpected_status status res)), W')
               else (case Decode E res (zero_Check (zero_time E)) of
                       Inl err \<Rightarrow> (Return ([], Some (Errorf_decoding res err)), W')
                     | Inr result \<Rightarrow> (Return (Check.ID result, None), W'))))"

definition Update :: "'t env \<Rightarrow> string \<Rightarrow> 't Check \<Rightarrow> world \<Rightarrow> error option outcome \<times> world" where
  "Update E ID' check W =
     (case json_Marshal E check of
        Inl err \<Rightarrow> (Return (Some err), W)
      | Inr data \<Rightarrow>
          (case MakeAPICall E ''PUT'' (''checks/'' @ ID') data W of
             (Panic, W') \<Rightarrow> (Panic, W')
           | (Return (status, res, Some err), W') \<Rightarrow> (Return (Some err), W')
           | (Return (status, res, None), W') \<Rightarrow>
               if status \<noteq> 200
               then (Return (Some (Errorf_unexpected_status status res)), W')
               else (case Decode E res (zero_Check (zero_time E)) of
                       Inl err \<Rightarrow> (Return (Some (Errorf_decoding res err)), W')
                     | Inr result \<Rightarrow> (Return None, W'))))"

definition Delete :: "'t env \<Rightarrow> string \<Rightarrow> world \<Rightarrow> error option outcome \<times> world" where
  "Delete E ID' W =
     (case MakeAPICall E ''DELETE'' (''checks/'' @ ID') [] W of
        (Panic, W') \<Rightarrow> (Panic, W')
      | (Return (status, res, Some err), W') \<Rightarrow> (Return (Some err), W')
      | (Return (status, res, None), W') \<Rightarrow>
          if status \<noteq> 204
          then (Return (Some (Errorf_unexpected_status status res)), W')
          else (Return None, W'))"

definition Get :: "'t env \<Rightarrow> string \<Rightarrow> world \<Rightarrow> ('t Check \<times> error option) outcome \<times> world" where
  "Get E ID' W =
     (case MakeAPICall E ''GET'' (''checks/'' @ ID') [] W of
        (Panic, W') \<Rightarrow> (Panic, W')
      | (Return (status, res, Some err), W') \<Rightarrow>
          (Return (zero_Check (zero_time E), Some err), W')
      | (Return (status, res, None), W') \<Rightarrow>
          if status \<noteq> 200
          then (Return (zero_Check (zero_time E), Some (Errorf_unexpected_status status res)), W')
          else (case Decode E res (zero_Check (zero_time E)) of
                  Inl err \<Rightarrow> (Return (zero_Check (zero_time E), Some (Errorf_decoding res err)), W')
                | Inr check \<Rightarrow> (Return (check, None), W')))"

text \<open>
  A program that uses the client is a sequence of calls; \<open>run\<close> performs them in order
  until one panics.
\<close>

datatype 't call =
    CallCreate "'t Check"
  | CallGet string
  | CallUpdate string "'t Check"
  | CallDelete string

fun step :: "'t env \<Rightarrow> 't call \<Rightarrow> world \<Rightarrow> bool \<times> world" where
  "step E (CallCreate check) W = (case Create E check W of (r, W') \<Rightarrow> (r = Panic, W'))"
| "step E (CallGet ID') W = (case Get E ID' W of (r, W') \<Rightarrow> (r = Panic, W'))"
| "step E (CallUpdate ID' check) W = (case Update E ID' check W of (r, W') \<Rightarrow> (r = Panic, W'))"
| "step E (CallDelete ID') W = (case Delete E ID' W of (r, W') \<Rightarrow> (r = Panic, W'))"

fun run :: "'t env \<Rightarrow> 't call list \<Rightarrow> world \<Rightarrow> world" where
  "run E [] W = W"
| "run E (x # xs) W = (case step E x W of (True, W') \<Rightarrow> W' | (False, W') \<Rightarrow> run E xs W')"

text \<open>
  \<open>getEnv\<close> and \<open>NewClient\<close>; \<open>lookup\<close> is os.LookupEnv and \<open>DefaultClient\<close> the handle of
  http.DefaultClient.
\<close>

definition getEnv :: "(string \<Rightarrow> string option) \<Rightarrow> string \<Rightarrow> string \<Rightarrow> string" where
  "getEnv lookup key fallback = (case lookup key of Some v \<Rightarrow> v | None \<Rightarrow> fallback)"

definition DefaultClient :: nat where
  "DefaultClient = 0"

definition NewClient :: "(string \<Rightarrow> string option) \<Rightarrow> string \<Rightarrow> Client" where
  "NewClient lookup key =
     \<lparr>apiKey = key,
      Client.URL = getEnv lookup ''CHECKLY_API_URL'' ''https://api.checklyhq.com'',
      HTTPClient = Some DefaultClient,
      Debug = None\<rparr>"

section \<open>Vocabulary of the properties\<close>

text \<open>
  The request that lines 105 to 111 of checkly.go build for a method, a path and a
  payload: the URL is the base URL, "/v1/" and the path, concatenated.
\<close>

definition request_for :: "Client \<Rightarrow> string \<Rightarrow> string \<Rightarrow> string \<Rightarrow> http_request" where
  "request_for c method path data =
     \<lparr>req_method = method,
      req_url = Client.URL c @ ''/v1/'' @ path,
      req_header = [(''Authorization'', ''Bearer '' @ apiKey c),
                    (''content-type'', ''application/json'')],
      req_body = data\<rparr>"

text \<open>
  A call gets as far as the transport when http.NewRequest accepts the method and the
  URL, the request dump succeeds if tracing is on, and the HTTP client is not nil.
\<close>

definition sendable :: "'t env \<Rightarrow> Client \<Rightarrow> string \<Rightarrow> string \<Rightarrow> string \<Rightarrow> bool" where
  "sendable E c method path data \<longleftrightarrow>
     NewRequest_err E method (Client.URL c @ ''/v1/'' @ path) = None
     \<and> (Debug c = None \<or> \<not> isl (DumpRequestOut E (request_for c method path data)))
     \<and> HTTPClient c \<noteq> None"

text \<open>
  The keys the decoder stores in the field \<open>ID\<close> of a Check, and the ID that results
  from storing the members of an object one after the other: the string of the last
  member with such a key whose value is a string (a \<open>null\<close> changes nothing).
\<close>

definition is_id_key :: "string \<Rightarrow> bool" where
  "is_id_key k \<longleftrightarrow> k = ''id'' \<or> k = ''Id'' \<or> k = ''iD'' \<or> k = ''ID''"

fun last_id :: "(string \<times> json) list \<Rightarrow> string \<Rightarrow> string" where
  "last_id [] cur = cur"
| "last_id ((k, j) # kvs) cur =
     last_id kvs (if is_id_key k then (case j of JStr s \<Rightarrow> s | _ \<Rightarrow> cur) else cur)"


section \<open>A test double\<close>

text \<open>
  The tests of the repository run the client against a local server that gives a fixed
  answer.  \<open>stub_env resp\<close> is such an environment; the theorems below are applied to it
  on concrete inputs.  A time is reduced to what matters to the client: \<open>Epoch\<close> can be
  written as JSON, \<open>Year10000\<close> cannot (its year is outside 0..9999).  The printer
  writes the compact form of encoding/json for texts without control characters; the
  scanner recognises the compact form of the documents in \<open>known_documents\<close>.
\<close>

datatype test_time = Epoch | Year10000

function show_nat :: "nat \<Rightarrow> string" where
  "show_nat n = (if n < 10 then [char_of (48 + n)] else show_nat (n div 10) @ [char_of (48 + n mod 10)])"
  by pat_completeness auto
termination
  by (relation "measure (\<lambda>n. n)") auto

declare show_nat.simps [simp del]

definition show_int :: "int \<Rightarrow> string" where
  "show_int i = (if i < 0 then CHR ''-'' # show_nat (nat (- i)) else show_nat (nat i))"

definition escape :: "char \<Rightarrow> string" where
  "escape c = (if c = CHR 0x22 then [CHR 0x5C, CHR 0x22]
               else if c = CHR 0x5C then [CHR 0x5C, CHR 0x5C] else [c])"

definition print_string :: "string \<Rightarrow> string" where
  "print_string s = [CHR 0x22] @ concat (map escape s) @ [CHR 0x22]"

fun print_json :: "json \<Rightarrow> string"
  and print_elems :: "json list \<Rightarrow> string"
  and print_members :: "(string \<times> json) list \<Rightarrow> string" where
  "print_json JNull = ''null''"
| "print_json (JBool b) = (if b then ''true'' else ''false'')"
| "print_json (JInt i) = show_int i"
| "print_json (JFrac s) = s"
| "print_json (JStr s) = print_string s"
| "print_json (JArr xs) = ''['' @ print_elems xs @ '']''"
| "print_json (JObj kvs) = ''{'' @ print_members kvs @ ''}''"
| "print_elems [] = []"
| "print_elems [x] = print_json x"
| "print_elems (x # y # ys) = print_json x @ '','' @ print_elems (y # ys)"
| "print_members [] = []"
| "print_members [(k, j)] = print_string k @ '':'' @ print_json j"
| "print_members ((k, j) # kv # kvs) =
     print_string k @ '':'' @ print_json j @ '','' @ print_members (kv # kvs)"

definition known_documents :: "json list" where
  "known_documents =
     [JObj [(''id'', JStr ''73d29e72-6540-4bb5-967e-e07fa2c9465e''), (''name'', JStr ''test'')],
      JObj [(''id'', JStr ''abc''), (''frequency'', JStr ''often'')],
      JObj [(''ID'', JStr ''abc'')],
      JObj [(''name'', JStr ''test'')]]"

definition stub_scan :: "string \<Rightarrow> error + json" where
  "stub_scan s =
     (case find (\<lambda>j. print_json j = s) known_documents of
        Some j \<Rightarrow> Inr j
      | None \<Rightarrow> Inl (LibError ''invalid character''))"

definition stub_time_text :: string where
  "stub_time_text = ''0001-01-01T00:00:00Z''"

definition stub_Time_MarshalJSON :: "test_time \<Rightarrow> error + string" where
  "stub_Time_MarshalJSON t =
     (case t of
        Epoch \<Rightarrow> Inr stub_time_text
      | Year10000 \<Rightarrow> Inl (LibError ''Time.MarshalJSON: year outside of range [0,9999]''))"

definition stub_Time_UnmarshalJSON :: "json \<Rightarrow> test_time \<Rightarrow> error + test_time" where
  "stub_Time_UnmarshalJSON j t =
     (case j of
        JNull \<Rightarrow> Inr t
      | JStr s \<Rightarrow> if s = stub_time_text then Inr Epoch else Inl (LibError ''parsing time'')
      | _ \<Rightarrow> Inl (LibError ''parsing time''))"

definition stub_NewRequest_err :: "string \<Rightarrow> string \<Rightarrow> error option" where
  "stub_NewRequest_err method url =
     (if CHR '' '' \<in> set url then Some (LibError ''invalid character in host name'') else None)"

definition stub_DumpRequestOut :: "http_request \<Rightarrow> error + string" where
  "stub_DumpRequestOut req = Inr (req_method req @ '' '' @ req_url req)"


definition stub_DumpResponse :: "http_response \<Rightarrow> error + string" where
  "stub_DumpResponse resp = Inr (resp_body resp)"


definition stub_Write :: "nat \<Rightarrow> string \<Rightarrow> error option" where
  "stub_Write w s = None"


definition stub_env :: "http_response \<Rightarrow> test_time env" where
  "stub_env resp =
     \<lparr>zero_time = Epoch,
      Time_MarshalJSON = stub_Time_MarshalJSON,
      Time_UnmarshalJSON = stub_Time_UnmarshalJSON,
      encode = print_json,
      scan = stub_scan,
      NewRequest_err = stub_NewRequest_err,
      DumpRequestOut = stub_DumpRequestOut,
      Do = (\<lambda>h history req. Inr resp),
      DumpResponse = stub_DumpResponse,
      Write = stub_Write\<rparr>"

definition reply :: "int \<Rightarrow> string \<Rightarrow> http_response" where
  "reply status text = \<lparr>StatusCode = status, resp_body = text, resp_read_err = None\<rparr>"

definition broken_reply :: "int \<Rightarrow> string \<Rightarrow> http_response" where
  "broken_reply status text =
     \<lparr>StatusCode = status, resp_body = text, resp_read_err = Some (LibError ''unexpected EOF'')\<rparr>"

text \<open>
  The client and the check of TestCreate, a check that cannot be encoded, a check that
  carries an ID, and the states before the first call, without and with tracing.
\<close>

definition test_check :: "test_time Check" where
  "test_check = (zero_Check Epoch)\<lparr>Name := ''test'', Type := ''BROWSER'', Check.Activated := True\<rparr>"

definition late_check :: "test_time Check" where
  "late_check = test_check\<lparr>CreatedAt := Year10000\<rparr>"

definition named_check :: "test_time Check" where
  "named_check = test_check\<lparr>Check.ID := ''abc''\<rparr>"

definition world0 :: world where
  "world0 = \<lparr>client = NewClient (\<lambda>key. None) ''dummy'', sent = [], debug_out = []\<rparr>"

definition traced0 :: world where
  "traced0 = world0\<lparr>client := (client world0)\<lparr>Debug := Some 1\<rparr>\<rparr>"

text \<open>The request body that json.Marshal produces for \<open>test_check\<close>.\<close>

definition test_data :: string where
  "test_data = print_json (JObj (Check_members stub_time_text stub_time_text test_check))"

section \<open>The transport, case by case\<close>

text \<open>
  Writing to the debug writer changes neither the client nor the list of requests.
\<close>

lemma Fprintln_client [simp]: "client (Fprintln E w s W) = client W"
  by (simp add: Fprintln_def split: option.splits)

lemma Fprintln_sent [simp]: "sent (Fprintln E w s W) = sent W"
  by (simp add: Fprintln_def split: option.splits)

lemma dumpResponse_client [simp]: "client (dumpResponse E w resp W) = client W"
  by (simp add: dumpResponse_def Let_def)

lemma dumpResponse_sent [simp]: "sent (dumpResponse E w resp W) = sent W"
  by (simp add: dumpResponse_def Let_def)

lemma MakeAPICall_rejected:
  assumes "NewRequest_err E m (Client.URL (client W) @ ''/v1/'' @ p) = Some err"
  shows "MakeAPICall E m p d W = (Return (0, [], Some (Errorf_create_request err)), W)"
  using assms by (simp add: MakeAPICall_def NewRequest_def Let_def)

lemma MakeAPICall_dump_failed:
  assumes "NewRequest_err E m (Client.URL (client W) @ ''/v1/'' @ p) = None"
    and "Debug (client W) = Some w"
    and "DumpRequestOut E (request_for (client W) m p d) = Inl err"
  shows "MakeAPICall E m p d W = (Return (0, [], Some (Errorf_dump_request err)), W)"
  using assms by (simp add: MakeAPICall_def NewRequest_def Let_def Header_Add_def request_for_def)

lemma MakeAPICall_sendable:
  assumes "sendable E (client W) m p d" and "HTTPClient (client W) = Some h"
  shows "fst (MakeAPICall E m p d W) =
           (case Do E h (sent W) (request_for (client W) m p d) of
              Inl err \<Rightarrow> Return (0, [], Some (Errorf_request_failed err))
            | Inr resp \<Rightarrow>
                (case resp_read_err resp of
                   Some err \<Rightarrow> Return (StatusCode resp, [], Some err)
                 | None \<Rightarrow> Return (StatusCode resp, resp_body resp, None)))"
    and "sent (snd (MakeAPICall E m p d W)) = sent W @ [request_for (client W) m p d]"
    and "client (snd (MakeAPICall E m p d W)) = client W"
proof -
  have nr: "NewRequest_err E m (Client.URL (client W) @ ''/v1/'' @ p) = None"
    using assms(1) by (simp add: sendable_def)
  show "fst (MakeAPICall E m p d W) =
           (case Do E h (sent W) (request_for (client W) m p d) of
              Inl err \<Rightarrow> Return (0, [], Some (Errorf_request_failed err))
            | Inr resp \<Rightarrow>
                (case resp_read_err resp of
                   Some err \<Rightarrow> Return (StatusCode resp, [], Some err)
                 | None \<Rightarrow> Return (StatusCode resp, resp_body resp, None)))"
  proof (cases "Debug (client W)")
    case None
    then show ?thesis using nr assms(2)
      by (simp add: MakeAPICall_def NewRequest_def Let_def Header_Add_def request_for_def ReadAll_def
          split: sum.splits option.splits)
  next
    case (Some w)
    then obtain dump where "DumpRequestOut E (request_for (client W) m p d) = Inr dump"
      using assms(1) by (cases "DumpRequestOut E (request_for (client W) m p d)") (auto simp: sendable_def)
    then show ?thesis using nr assms(2) Some
      by (simp add: MakeAPICall_def NewRequest_def Let_def Header_Add_def request_for_def ReadAll_def
          split: sum.splits option.splits)
  qed
  show "sent (snd (MakeAPICall E m p d W)) = sent W @ [request_for (client W) m p d]"
  proof (cases "Debug (client W)")
    case None
    then show ?thesis using nr assms(2)
      by (simp add: MakeAPICall_def NewRequest_def Let_def Header_Add_def request_for_def ReadAll_def
          split: sum.splits option.splits)
  next
    case (Some w)
    then obtain dump where "DumpRequestOut E (request_for (client W) m p d) = Inr dump"
      using assms(1) by (cases "DumpRequestOut E (request_for (client W) m p d)") (auto simp: sendable_def)
    then show ?thesis using nr assms(2) Some
      by (simp add: MakeAPICall_def NewRequest_def Let_def Header_Add_def request_for_def ReadAll_def
          split: sum.splits option.splits)
  qed
  show "client (snd (MakeAPICall E m p d W)) = client W"
  proof (cases "Debug (client W)")
    case None
    then show ?thesis using nr assms(2)
      by (simp add: MakeAPICall_def NewRequest_def Let_def Header_Add_def request_for_def ReadAll_def
          split: sum.splits option.splits)
  next
    case (Some w)
    then obtain dump where "DumpRequestOut E (request_for (client W) m p d) = Inr dump"
      using assms(1) by (cases "DumpRequestOut E (request_for (client W) m p d)") (auto simp: sendable_def)
    then show ?thesis using nr assms(2) Some
      by (simp add: MakeAPICall_def NewRequest_def Let_def Header_Add_def request_for_def ReadAll_def
          split: sum.splits option.splits)
  qed
qed

lemma MakeAPICall_no_client:
  assumes "NewRequest_err E m (Client.URL (client W) @ ''/v1/'' @ p) = None"
    and "HTTPClient (client W) = None"
    and "Debug (client W) = None \<or> \<not> isl (DumpRequestOut E (request_for (client W) m p d))"
  shows "fst (MakeAPICall E m p d W) = Panic"
    and "sent (snd (MakeAPICall E m p d W)) = sent W"
    and "client (snd (MakeAPICall E m p d W)) = client W"
proof -
  have "fst (MakeAPICall E m p d W) = Panic \<and> sent (snd (MakeAPICall E m p d W)) = sent W
        \<and> client (snd (MakeAPICall E m p d W)) = client W"
  proof (cases "Debug (client W)")
    case None
    then show ?thesis using assms(1,2)
      by (simp add: MakeAPICall_def NewRequest_def Let_def Header_Add_def request_for_def)
  next
    case (Some w)
    then obtain dump where "DumpRequestOut E (request_for (client W) m p d) = Inr dump"
      using assms(3) by (cases "DumpRequestOut E (request_for (client W) m p d)") auto
    then show ?thesis using assms(1,2) Some
      by (simp add: MakeAPICall_def NewRequest_def Let_def Header_Add_def request_for_def)
  qed
  then show "fst (MakeAPICall E m p d W) = Panic"
    and "sent (snd (MakeAPICall E m p d W)) = sent W"
    and "client (snd (MakeAPICall E m p d W)) = client W" by simp_all
qed

lemma MakeAPICall_sent:
  "sent (snd (MakeAPICall E m p d W)) =
     (if sendable E (client W) m p d then sent W @ [request_for (client W) m p d] else sent W)"
proof (cases "sendable E (client W) m p d")
  case True
  then obtain h where "HTTPClient (client W) = Some h" by (auto simp: sendable_def)
  then show ?thesis using True MakeAPICall_sendable(2) [of E W m p d h] by simp
next
  case False
  show ?thesis
  proof (cases "NewRequest_err E m (Client.URL (client W) @ ''/v1/'' @ p)")
    case (Some err)
    then show ?thesis using False MakeAPICall_rejected [of E m W p err d] by simp
  next
    case None
    show ?thesis
    proof (cases "Debug (client W) = None \<or> \<not> isl (DumpRequestOut E (request_for (client W) m p d))")
      case True
      then have "HTTPClient (client W) = None" using False None by (auto simp: sendable_def)
      then show ?thesis using False MakeAPICall_no_client(2) [OF None _ True] by simp
    next
      case F: False
      then obtain w err where "Debug (client W) = Some w"
        "DumpRequestOut E (request_for (client W) m p d) = Inl err"
        by (cases "DumpRequestOut E (request_for (client W) m p d)") auto
      then show ?thesis using False MakeAPICall_dump_failed [OF None, of w d err] by simp
    qed
  qed
qed

lemma MakeAPICall_client: "client (snd (MakeAPICall E m p d W)) = client W"
proof (cases "NewRequest_err E m (Client.URL (client W) @ ''/v1/'' @ p)")
  case (Some err)
  then show ?thesis using MakeAPICall_rejected [of E m W p err d] by simp
next
  case None
  show ?thesis
  proof (cases "Debug (client W) = None \<or> \<not> isl (DumpRequestOut E (request_for (client W) m p d))")
    case True
    show ?thesis
    proof (cases "HTTPClient (client W)")
      case N: None
      show ?thesis by (rule MakeAPICall_no_client(3) [OF None N True])
    next
      case (Some h)
      then have "sendable E (client W) m p d" using None True by (simp add: sendable_def)
      then show ?thesis using Some by (rule MakeAPICall_sendable(3))
    qed
  next
    case False
    then obtain w err where "Debug (client W) = Some w"
      "DumpRequestOut E (request_for (client W) m p d) = Inl err"
      by (cases "DumpRequestOut E (request_for (client W) m p d)") auto
    then show ?thesis using MakeAPICall_dump_failed [OF None, of w d err] by simp
  qed
qed

section \<open>The operations in terms of the transport\<close>

lemma Create_world:
  "snd (Create E check W) =
     (case json_Marshal E check of
        Inl err \<Rightarrow> W
      | Inr data \<Rightarrow> snd (MakeAPICall E ''POST'' ''checks'' data W))"
  by (simp add: Create_def split: sum.splits prod.splits outcome.splits option.splits)

lemma Update_world:
  "snd (Update E i check W) =
     (case json_Marshal E check of
        Inl err \<Rightarrow> W
      | Inr data \<Rightarrow> snd (MakeAPICall E ''PUT'' (''checks/'' @ i) data W))"
  by (simp add: Update_def split: sum.splits prod.splits outcome.splits option.splits)

lemma Delete_world: "snd (Delete E i W) = snd (MakeAPICall E ''DELETE'' (''checks/'' @ i) [] W)"
  by (simp add: Delete_def split: sum.splits prod.splits outcome.splits option.splits)

lemma Get_world: "snd (Get E i W) = snd (MakeAPICall E ''GET'' (''checks/'' @ i) [] W)"
  by (simp add: Get_def split: sum.splits prod.splits outcome.splits option.splits)

lemma Create_client: "client (snd (Create E check W)) = client W"
  by (simp add: Create_world MakeAPICall_client split: sum.splits)

lemma Update_client: "client (snd (Update E i check W)) = client W"
  by (simp add: Update_world MakeAPICall_client split: sum.splits)

lemma Delete_client: "client (snd (Delete E i W)) = client W"
  by (simp add: Delete_world MakeAPICall_client)

lemma Get_client: "client (snd (Get E i W)) = client W"
  by (simp add: Get_world MakeAPICall_client)

lemma step_client: "client (snd (step E x W)) = client W"
  by (cases x)
     (simp_all add: case_prod_unfold Create_client Update_client Delete_client Get_client)

section \<open>The test double, evaluated\<close>

lemma stub_Marshal: "json_Marshal (stub_env r) test_check = Inr test_data"
  by (simp add: json_Marshal_def enc_Check_def stub_env_def stub_Time_MarshalJSON_def
      test_check_def zero_Check_def test_data_def)

lemma stub_sendable:
  assumes "CHR '' '' \<notin> set p"
  shows "sendable (stub_env r) (client world0) m p d"
    and "sendable (stub_env r) (client traced0) m p d"
  using assms
  by (simp_all add: sendable_def stub_env_def stub_NewRequest_err_def world0_def traced0_def
      NewClient_def getEnv_def stub_DumpRequestOut_def)

lemma stub_call:
  assumes "CHR '' '' \<notin> set p"
  shows "fst (MakeAPICall (stub_env r) m p d world0) =
           (case resp_read_err r of
              Some err \<Rightarrow> Return (StatusCode r, [], Some err)
            | None \<Rightarrow> Return (StatusCode r, resp_body r, None))"
proof -
  have h: "HTTPClient (client world0) = Some 0"
    by (simp add: world0_def NewClient_def DefaultClient_def)
  show ?thesis
    using MakeAPICall_sendable(1) [OF stub_sendable(1) [OF assms] h, of r m d]
    by (simp add: stub_env_def)
qed

lemma checks_path: "CHR '' '' \<notin> set ''checks''"
  by simp

section \<open>Properties of the client\<close>

text \<open>
  C9.  No operation writes to the client: after any sequence of Create, Get, Update and
  Delete calls, and so after each call of the sequence, the API key, the base URL, the
  HTTP client handle and the debug writer are what they were before.
\<close>

theorem client_never_modified:
  "client (run E calls W) = client W
   \<and> client (snd (Create E check W)) = client W
   \<and> client (snd (Get E ID' W)) = client W
   \<and> client (snd (Update E ID' check W)) = client W
   \<and> client (snd (Delete E ID' W)) = client W"
proof -
  have "client (run E calls W) = client W"
  proof (induction calls arbitrary: W)
    case Nil
    show ?case by simp
  next
    case (Cons x xs)
    obtain b W' where s: "step E x W = (b, W')" by (cases "step E x W")
    have "client W' = client W" using step_client [of E x W] s by simp
    then show ?case using Cons.IH [of W'] s by (cases b) simp_all
  qed
  then show ?thesis
    by (simp add: Create_client Update_client Delete_client Get_client)
qed

theorem client_never_modified_witness:
  "client (run (stub_env (reply 204 []))
             [CallCreate test_check, CallDelete ''73d29e72-6540-4bb5-967e-e07fa2c9465e'']
             world0)
   = \<lparr>apiKey = ''dummy'', Client.URL = ''https://api.checklyhq.com'',
      HTTPClient = Some 0, Debug = None\<rparr>"
  using client_never_modified
          [of "stub_env (reply 204 [])"
              "[CallCreate test_check, CallDelete ''73d29e72-6540-4bb5-967e-e07fa2c9465e'']"
              world0 test_check "[]"]
  by (simp add: world0_def NewClient_def getEnv_def DefaultClient_def)

text \<open>
  C6.  When the encoding of the Check fails, Create and Update return the error of
  json.Marshal at once and leave the state as it is: no request has been handed to the
  transport and nothing has been written.
\<close>

theorem encoding_failure_before_network:
  assumes "json_Marshal E check = Inl err"
  shows "Create E check W = (Return ([], Some err), W)
         \<and> Update E ID' check W = (Return (Some err), W)"
  using assms by (simp add: Create_def Update_def)

theorem encoding_failure_before_network_witness:
  "json_Marshal (stub_env (reply 201 [])) late_check
     = Inl (MarshalerError (LibError ''Time.MarshalJSON: year outside of range [0,9999]''))
   \<and> Create (stub_env (reply 201 [])) late_check world0
     = (Return ([], Some (MarshalerError
          (LibError ''Time.MarshalJSON: year outside of range [0,9999]''))), world0)
   \<and> Update (stub_env (reply 201 [])) ''abc'' late_check world0
     = (Return (Some (MarshalerError
          (LibError ''Time.MarshalJSON: year outside of range [0,9999]''))), world0)"
proof -
  have h: "json_Marshal (stub_env (reply 201 [])) late_check
     = Inl (MarshalerError (LibError ''Time.MarshalJSON: year outside of range [0,9999]''))"
    by (simp add: json_Marshal_def enc_Check_def stub_env_def stub_Time_MarshalJSON_def
        late_check_def)
  show ?thesis
    using h encoding_failure_before_network [OF h, of world0 "''abc''"] by simp
qed

text \<open>
  C4.  When the transport returns without error and with a status other than 201,
  Create returns the empty ID and the error built from the status code and the response
  body by \<open>fmt.Errorf("unexpected response status %d: %q", status, res)\<close>.
\<close>

theorem Create_unexpected_status:
  assumes "json_Marshal E check = Inr data"
    and "fst (MakeAPICall E ''POST'' ''checks'' data W) = Return (status, res, None)"
    and "status \<noteq> 201"
  shows "fst (Create E check W) = Return ([], Some (Errorf_unexpected_status status res))"
  using assms
  by (cases "MakeAPICall E ''POST'' ''checks'' data W") (simp add: Create_def)

theorem Create_unexpected_status_witness:
  "json_Marshal (stub_env (reply 200 ''OK'')) test_check = Inr test_data
   \<and> fst (MakeAPICall (stub_env (reply 200 ''OK'')) ''POST'' ''checks'' test_data world0)
       = Return (200, ''OK'', None)
   \<and> (200::int) \<noteq> 201
   \<and> fst (Create (stub_env (reply 200 ''OK'')) test_check world0)
       = Return ([], Some (Errorf_unexpected_status 200 ''OK''))"
proof -
  have m: "json_Marshal (stub_env (reply 200 ''OK'')) test_check = Inr test_data"
    by (rule stub_Marshal)
  have c: "fst (MakeAPICall (stub_env (reply 200 ''OK'')) ''POST'' ''checks'' test_data world0)
       = Return (200, ''OK'', None)"
    using stub_call [OF checks_path] by (simp add: reply_def)
  have n: "(200::int) \<noteq> 201" by simp
  show ?thesis using m c Create_unexpected_status [OF m c n] by simp
qed

text \<open>
  C5.  When the transport returns without error, Delete returns nil exactly when the
  status is 204; for any other status it returns the error built from the status code
  and the response body.
\<close>

theorem Delete_status:
  assumes "fst (MakeAPICall E ''DELETE'' (''checks/'' @ ID') [] W) = Return (status, res, None)"
  shows "fst (Delete E ID' W) =
           Return (if status = 204 then None else Some (Errorf_unexpected_status status res))"
  using assms
  by (cases "MakeAPICall E ''DELETE'' (''checks/'' @ ID') [] W") (simp add: Delete_def)

theorem Delete_status_witness:
  "fst (MakeAPICall (stub_env (reply 204 [])) ''DELETE'' (''checks/'' @ ''73d29e72'') [] world0)
     = Return (204, [], None)
   \<and> fst (Delete (stub_env (reply 204 [])) ''73d29e72'' world0) = Return None
   \<and> fst (MakeAPICall (stub_env (reply 404 ''Not Found'')) ''DELETE'' (''checks/'' @ ''73d29e72'') [] world0)
     = Return (404, ''Not Found'', None)
   \<and> fst (Delete (stub_env (reply 404 ''Not Found'')) ''73d29e72'' world0)
     = Return (Some (Errorf_unexpected_status 404 ''Not Found''))"
proof -
  have p: "CHR '' '' \<notin> set (''checks/'' @ ''73d29e72'')" by simp
  have a: "fst (MakeAPICall (stub_env (reply 204 [])) ''DELETE'' (''checks/'' @ ''73d29e72'') [] world0)
     = Return (204, [], None)"
    using stub_call [OF p] by (simp add: reply_def)
  have b: "fst (MakeAPICall (stub_env (reply 404 ''Not Found'')) ''DELETE'' (''checks/'' @ ''73d29e72'') [] world0)
     = Return (404, ''Not Found'', None)"
    using stub_call [OF p] by (simp add: reply_def)
  show ?thesis using a b Delete_status [OF a] Delete_status [OF b] by simp
qed

text \<open>
  C7.  When the call gets as far as the transport, the transport hands over a response,
  and reading the body of the response fails, MakeAPICall returns the status code of
  the response, the empty string and the read error.
\<close>

theorem MakeAPICall_read_failure:
  assumes "sendable E (client W) method URL' data"
    and "HTTPClient (client W) = Some h"
    and "Do E h (sent W) (request_for (client W) method URL' data) = Inr resp"
    and "resp_read_err resp = Some err"
  shows "fst (MakeAPICall E method URL' data W) = Return (StatusCode resp, [], Some err)"
  using MakeAPICall_sendable(1) [OF assms(1,2)] assms(3,4) by simp

theorem MakeAPICall_read_failure_witness:
  "sendable (stub_env (broken_reply 200 ''{'')) (client traced0) ''GET'' ''checks/abc'' []
   \<and> HTTPClient (client traced0) = Some 0
   \<and> Do (stub_env (broken_reply 200 ''{'')) 0 (sent traced0)
        (request_for (client traced0) ''GET'' ''checks/abc'' []) = Inr (broken_reply 200 ''{'')
   \<and> resp_read_err (broken_reply 200 ''{'') = Some (LibError ''unexpected EOF'')
   \<and> fst (MakeAPICall (stub_env (broken_reply 200 ''{'')) ''GET'' ''checks/abc'' [] traced0)
       = Return (200, [], Some (LibError ''unexpected EOF''))"
proof -
  have p: "CHR '' '' \<notin> set ''checks/abc''" by simp
  have s: "sendable (stub_env (broken_reply 200 ''{'')) (client traced0) ''GET'' ''checks/abc'' []"
    by (rule stub_sendable(2) [OF p])
  have h: "HTTPClient (client traced0) = Some 0"
    by (simp add: traced0_def world0_def NewClient_def DefaultClient_def)
  have d: "Do (stub_env (broken_reply 200 ''{'')) 0 (sent traced0)
        (request_for (client traced0) ''GET'' ''checks/abc'' []) = Inr (broken_reply 200 ''{'')"
    by (simp add: stub_env_def)
  have r: "resp_read_err (broken_reply 200 ''{'') = Some (LibError ''unexpected EOF'')"
    by (simp add: broken_reply_def)
  show ?thesis
    using s h d r MakeAPICall_read_failure [OF s h d r] by (simp add: broken_reply_def)
qed

section \<open>What the decoder stores in the ID of a Check\<close>

text \<open>
  The keys that fold onto \<open>id\<close> are its four capitalisations, and they are the keys the
  decoder stores in the field \<open>ID\<close>; every other field of a Check is stored under
  another name, so it leaves \<open>ID\<close> alone.
\<close>

lemma fold_char_small_iff:
  assumes m: "of_char c = (m::nat)" and lo: "97 \<le> m" and hi: "m \<le> 122"
  shows "fold_char a = c \<longleftrightarrow> a = c \<or> a = char_of (m - 32)"
proof -
  define n where "n = (of_char a :: nat)"
  have n256: "n < 256" by (simp add: n_def)
  have B: "(a = c) = (n = m)"
    unfolding n_def m [symmetric] by simp
  have "(a = char_of (m - 32)) = (of_char a = (of_char (char_of (m - 32) :: char) :: nat))"
    by (simp only: of_char_eq_iff)
  also have "\<dots> = (n = m - 32)"
    using hi by (simp add: n_def)
  finally have C: "(a = char_of (m - 32)) = (n = m - 32)" .
  show ?thesis
  proof (cases "65 \<le> n \<and> n \<le> 90")
    case True
    then have f: "fold_char a = char_of (n + 32)"
      by (simp add: fold_char_def n_def Let_def)
    have "(fold_char a = c) = (of_char (fold_char a) = (of_char c :: nat))"
      by (simp only: of_char_eq_iff)
    also have "\<dots> = (n + 32 = m)"
      using True by (simp add: f m)
    finally have A: "(fold_char a = c) = (n + 32 = m)" .
    show ?thesis unfolding A B C using True lo by auto
  next
    case False
    then have f: "fold_char a = a"
      by (auto simp add: fold_char_def n_def Let_def)
    show ?thesis unfolding f B C using False lo hi by auto
  qed
qed

lemma char_of_73: "char_of (73::nat) = CHR ''I''"
proof -
  have "of_char (char_of (73::nat) :: char) = (of_char (CHR ''I'') :: nat)" by simp
  then show ?thesis by (rule of_char_eqI)
qed

lemma char_of_68: "char_of (68::nat) = CHR ''D''"
proof -
  have "of_char (char_of (68::nat) :: char) = (of_char (CHR ''D'') :: nat)" by simp
  then show ?thesis by (rule of_char_eqI)
qed

lemma fold_char_i: "fold_char a = CHR ''i'' \<longleftrightarrow> a = CHR ''i'' \<or> a = CHR ''I''"
  using fold_char_small_iff [of "CHR ''i''" 105 a] by (simp add: char_of_73)

lemma fold_char_d: "fold_char a = CHR ''d'' \<longleftrightarrow> a = CHR ''d'' \<or> a = CHR ''D''"
  using fold_char_small_iff [of "CHR ''d''" 100 a] by (simp add: char_of_68)

lemma fold_key_Nil: "fold_key xs = [] \<longleftrightarrow> xs = []"
  by (induction xs rule: fold_key.induct) auto

lemma fold_key_id: "fold_key k = ''id'' \<longleftrightarrow> is_id_key k"
proof (cases k rule: fold_key.cases)
  case (1 a b c cs)
  have ne: "fold_key (c # cs) \<noteq> []" by (simp add: fold_key_Nil)
  have "fold_key (b # c # cs) \<noteq> ''d''"
  proof (cases cs)
    case Nil
    then show ?thesis by simp
  next
    case (Cons e es)
    have "fold_key (c # e # es) \<noteq> []" by (simp only: fold_key_Nil) simp
    then show ?thesis using Cons by (auto simp del: fold_key.simps(1) simp add: fold_key.simps(1) [of b c e es])
  qed
  then show ?thesis using 1 by (auto simp: is_id_key_def)
next
  case (2 a b)
  then show ?thesis by (auto simp: is_id_key_def fold_char_i fold_char_d)
next
  case (3 a)
  then show ?thesis by (simp add: is_id_key_def)
next
  case 4
  then show ?thesis by (simp add: is_id_key_def)
qed

lemma char_of_eq_char: "(char_of (n::nat) = c) = (n mod 256 = of_char c)"
  by (auto simp: char_of_eq_iff take_bit_eq_mod)

lemma char_eq_char_of: "(c = char_of (n::nat)) = (of_char c = n mod 256)"
  using char_of_eq_char [of n c] by auto

lemmas fold_char_eval = fold_char_def char_of_eq_char char_eq_char_of

lemma field_for_id_key: "is_id_key k \<Longrightarrow> field_for k Check_names = Some ''id''"
  unfolding is_id_key_def
  by (elim disjE) (simp_all add: field_for_def Check_names_def fold_char_eval)

lemma field_for_id_keyD:
  assumes "field_for k Check_names = Some ''id''"
  shows "is_id_key k"
proof (cases "k \<in> set Check_names")
  case True
  then have "k = ''id''" using assms by (simp add: field_for_def)
  then show ?thesis by (simp add: is_id_key_def)
next
  case False
  then have "find (\<lambda>n. fold_key n = fold_key k) Check_names = Some ''id''"
    using assms by (simp add: field_for_def)
  then have "\<exists>i<length Check_names. fold_key (Check_names ! i) = fold_key k \<and> ''id'' = Check_names ! i"
    unfolding find_Some_iff by blast
  then have "fold_key ''id'' = fold_key k"
    by metis
  moreover have "fold_key ''id'' = ''id''" by (simp add: fold_char_def)
  ultimately have "fold_key k = ''id''" by simp
  then show ?thesis by (simp add: fold_key_id)
qed

lemma set_Check_field_ID:
  assumes "set_Check_field E f j c sv = Inr (c', sv')"
  shows "Check.ID c' =
           (if f = ''id'' then (case j of JStr s \<Rightarrow> s | _ \<Rightarrow> Check.ID c) else Check.ID c)"
  using assms
  by (auto simp: set_Check_field_def upd_def dec_string_def mismatch_def
           split: if_splits sum.splits prod.splits json.splits)

lemma dec_object_Check_ID:
  "dec_object Check_names (set_Check_field E) kvs c sv = Inr (c', sv')
     \<Longrightarrow> Check.ID c' = last_id kvs (Check.ID c)"
proof (induction kvs arbitrary: c sv)
  case Nil
  then show ?case by simp
next
  case (Cons kv kvs)
  obtain k j where kv: "kv = (k, j)" by (cases kv)
  show ?case
  proof (cases "field_for k Check_names")
    case None
    then have "\<not> is_id_key k" using field_for_id_key [of k] by auto
    then show ?thesis using Cons None kv by simp
  next
    case (Some f)
    have idk: "(f = ''id'') = is_id_key k"
      using Some field_for_id_key [of k] field_for_id_keyD [of k] by auto
    from Cons.prems Some kv obtain c1 sv1 where
      s: "set_Check_field E f j c sv = Inr (c1, sv1)" and
      r: "dec_object Check_names (set_Check_field E) kvs c1 sv1 = Inr (c', sv')"
      by (auto split: sum.splits)
    have "Check.ID c1 = (if is_id_key k then (case j of JStr s \<Rightarrow> s | _ \<Rightarrow> Check.ID c) else Check.ID c)"
      using set_Check_field_ID [OF s] idk by simp
    then show ?thesis using Cons.IH [OF r] kv by simp
  qed
qed

lemma Decode_object_ID:
  assumes "scan E res = Inr (JObj kvs)"
    and "Decode E res c0 = Inr c"
  shows "Check.ID c = last_id kvs (Check.ID c0)"
proof -
  have "dec_object Check_names (set_Check_field E) kvs c0 None = Inr (c, None)"
    using assms
    by (auto simp: Decode_def dec_Check_def dec_struct_def split: sum.splits option.splits)
  then show ?thesis by (rule dec_object_Check_ID)
qed

lemma last_id_unchanged:
  assumes "\<forall>(k, j) \<in> set kvs. is_id_key k \<longrightarrow> (\<forall>s. j = JStr s \<longrightarrow> s = cur)"
  shows "last_id kvs cur = cur"
  using assms
proof (induction kvs)
  case Nil
  show ?case by simp
next
  case (Cons kv kvs)
  obtain k j where kv: "kv = (k, j)" by (cases kv)
  have "(if is_id_key k then (case j of JStr s \<Rightarrow> s | _ \<Rightarrow> cur) else cur) = cur"
    using Cons.prems kv by (auto split: json.splits)
  then show ?case using Cons kv by simp
qed

lemma Create_created:
  assumes "json_Marshal E check = Inr data"
    and "fst (MakeAPICall E ''POST'' ''checks'' data W) = Return (201, res, None)"
  shows "fst (Create E check W) =
           (case Decode E res (zero_Check (zero_time E)) of
              Inl err \<Rightarrow> Return ([], Some (Errorf_decoding res err))
            | Inr result \<Rightarrow> Return (Check.ID result, None))"
  using assms
  by (cases "MakeAPICall E ''POST'' ''checks'' data W") (simp add: Create_def split: sum.splits)

lemma zero_Check_ID: "Check.ID (zero_Check t) = []"
  by (simp add: zero_Check_def)

text \<open>The test double on the documents it knows.\<close>

lemma stub_scan_documents:
  \<open>scan (stub_env r) ''{"id":"73d29e72-6540-4bb5-967e-e07fa2c9465e","name":"test"}''
     = Inr (JObj [(''id'', JStr ''73d29e72-6540-4bb5-967e-e07fa2c9465e''), (''name'', JStr ''test'')])\<close>
  \<open>scan (stub_env r) ''{"id":"abc","frequency":"often"}''
     = Inr (JObj [(''id'', JStr ''abc''), (''frequency'', JStr ''often'')])\<close>
  \<open>scan (stub_env r) ''{"ID":"abc"}'' = Inr (JObj [(''ID'', JStr ''abc'')])\<close>
  \<open>scan (stub_env r) ''{"name":"test"}'' = Inr (JObj [(''name'', JStr ''test'')])\<close>
  by (simp_all add: stub_env_def stub_scan_def known_documents_def print_string_def escape_def)

lemmas decode_eval =
  Decode_def dec_Check_def dec_struct_def field_for_def Check_names_def set_Check_field_def
  upd_def dec_string_def dec_int_def mismatch_def saveError_def fold_char_eval

text \<open>
  C1, as the code has it.  When the transport returns status 201 and a body that is a
  JSON object which the decoder stores in a Check without error, Create returns a nil
  error and the ID that storing the members in order leaves behind: the string of the
  last member whose key is \<open>id\<close>, in any capitalisation, and whose value is a string.
\<close>

theorem Create_returns_decoded_id:
  assumes "json_Marshal E check = Inr data"
    and "fst (MakeAPICall E ''POST'' ''checks'' data W) = Return (201, res, None)"
    and "scan E res = Inr (JObj kvs)"
    and "Decode E res (zero_Check (zero_time E)) = Inr c"
  shows "fst (Create E check W) = Return (last_id kvs [], None)"
  using Create_created [OF assms(1,2)] Decode_object_ID [OF assms(3,4)] assms(4)
  by (simp add: zero_Check_ID)

theorem Create_returns_decoded_id_witness:
  \<open>json_Marshal (stub_env (reply 201 ''{"id":"73d29e72-6540-4bb5-967e-e07fa2c9465e","name":"test"}'')) test_check
     = Inr test_data
   \<and> fst (MakeAPICall (stub_env (reply 201 ''{"id":"73d29e72-6540-4bb5-967e-e07fa2c9465e","name":"test"}''))
          ''POST'' ''checks'' test_data world0)
     = Return (201, ''{"id":"73d29e72-6540-4bb5-967e-e07fa2c9465e","name":"test"}'', None)
   \<and> scan (stub_env (reply 201 ''{"id":"73d29e72-6540-4bb5-967e-e07fa2c9465e","name":"test"}''))
          ''{"id":"73d29e72-6540-4bb5-967e-e07fa2c9465e","name":"test"}''
     = Inr (JObj [(''id'', JStr ''73d29e72-6540-4bb5-967e-e07fa2c9465e''), (''name'', JStr ''test'')])
   \<and> Decode (stub_env (reply 201 ''{"id":"73d29e72-6540-4bb5-967e-e07fa2c9465e","name":"test"}''))
          ''{"id":"73d29e72-6540-4bb5-967e-e07fa2c9465e","name":"test"}'' (zero_Check Epoch)
     = Inr ((zero_Check Epoch)\<lparr>Check.ID := ''73d29e72-6540-4bb5-967e-e07fa2c9465e'', Name := ''test''\<rparr>)
   \<and> fst (Create (stub_env (reply 201 ''{"id":"73d29e72-6540-4bb5-967e-e07fa2c9465e","name":"test"}''))
          test_check world0)
     = Return (''73d29e72-6540-4bb5-967e-e07fa2c9465e'', None)\<close>
proof -
  define body where \<open>body = ''{"id":"73d29e72-6540-4bb5-967e-e07fa2c9465e","name":"test"}''\<close>
  define E where "E = stub_env (reply 201 body)"
  have z: "zero_time E = Epoch" by (simp add: E_def stub_env_def)
  have m: "json_Marshal E test_check = Inr test_data"
    unfolding E_def by (rule stub_Marshal)
  have c: "fst (MakeAPICall E ''POST'' ''checks'' test_data world0) = Return (201, body, None)"
    unfolding E_def using stub_call [OF checks_path] by (simp add: reply_def)
  have s: "scan E body
     = Inr (JObj [(''id'', JStr ''73d29e72-6540-4bb5-967e-e07fa2c9465e''), (''name'', JStr ''test'')])"
    unfolding E_def body_def by (rule stub_scan_documents)
  have d: "Decode E body (zero_Check (zero_time E))
     = Inr ((zero_Check Epoch)\<lparr>Check.ID := ''73d29e72-6540-4bb5-967e-e07fa2c9465e'', Name := ''test''\<rparr>)"
    by (simp add: s z decode_eval)
  show ?thesis
    using m c s d Create_returns_decoded_id [OF m c s d]
    unfolding z unfolding E_def body_def by (simp add: is_id_key_def)
qed

text \<open>
  C1 as stated fails: a 201 response whose body is a JSON object with the member
  \<open>"id":"abc"\<close> need not make Create return \<open>abc\<close>.  Here another member has the wrong
  type for its field, the decoder reports it, and Create returns the empty ID and a
  decoding error.
\<close>

theorem Create_id_field_counterexample:
  \<open>fst (MakeAPICall (stub_env (reply 201 ''{"id":"abc","frequency":"often"}''))
          ''POST'' ''checks'' test_data world0)
     = Return (201, ''{"id":"abc","frequency":"often"}'', None)
   \<and> scan (stub_env (reply 201 ''{"id":"abc","frequency":"often"}''))
          ''{"id":"abc","frequency":"often"}''
     = Inr (JObj [(''id'', JStr ''abc''), (''frequency'', JStr ''often'')])
   \<and> fst (Create (stub_env (reply 201 ''{"id":"abc","frequency":"often"}'')) test_check world0)
     = Return ([], Some (Errorf_decoding ''{"id":"abc","frequency":"often"}''
                           (UnmarshalTypeError ''string'' ''int'')))\<close>
proof -
  define body where \<open>body = ''{"id":"abc","frequency":"often"}''\<close>
  define E where "E = stub_env (reply 201 body)"
  have z: "zero_time E = Epoch" by (simp add: E_def stub_env_def)
  have m: "json_Marshal E test_check = Inr test_data"
    unfolding E_def by (rule stub_Marshal)
  have c: "fst (MakeAPICall E ''POST'' ''checks'' test_data world0) = Return (201, body, None)"
    unfolding E_def using stub_call [OF checks_path] by (simp add: reply_def)
  have s: "scan E body = Inr (JObj [(''id'', JStr ''abc''), (''frequency'', JStr ''often'')])"
    unfolding E_def body_def by (rule stub_scan_documents)
  have d: "Decode E body (zero_Check (zero_time E)) = Inl (UnmarshalTypeError ''string'' ''int'')"
    by (simp add: s z decode_eval)
  have "fst (Create E test_check world0)
     = Return ([], Some (Errorf_decoding body (UnmarshalTypeError ''string'' ''int'')))"
    using Create_created [OF m c] d by simp
  then show ?thesis using c s unfolding E_def body_def by simp
qed

text \<open>
  C10, as the code has it.  When the transport returns status 201 and a body that is a
  JSON object which the decoder stores in a Check without error, and no member whose
  key is \<open>id\<close>, in any capitalisation, has a non-empty string as its value, Create
  returns the empty string and a nil error.
\<close>

theorem Create_without_id:
  assumes "json_Marshal E check = Inr data"
    and "fst (MakeAPICall E ''POST'' ''checks'' data W) = Return (201, res, None)"
    and "scan E res = Inr (JObj kvs)"
    and "Decode E res (zero_Check (zero_time E)) = Inr c"
    and "\<forall>(k, j) \<in> set kvs. is_id_key k \<longrightarrow> (\<forall>s. j = JStr s \<longrightarrow> s = [])"
  shows "fst (Create E check W) = Return ([], None)"
  using Create_created [OF assms(1,2)] Decode_object_ID [OF assms(3,4)] assms(4)
    last_id_unchanged [OF assms(5)]
  by (simp add: zero_Check_ID)

theorem Create_without_id_witness:
  \<open>json_Marshal (stub_env (reply 201 ''{"name":"test"}'')) test_check = Inr test_data
   \<and> fst (MakeAPICall (stub_env (reply 201 ''{"name":"test"}'')) ''POST'' ''checks'' test_data world0)
     = Return (201, ''{"name":"test"}'', None)
   \<and> scan (stub_env (reply 201 ''{"name":"test"}'')) ''{"name":"test"}''
     = Inr (JObj [(''name'', JStr ''test'')])
   \<and> Decode (stub_env (reply 201 ''{"name":"test"}'')) ''{"name":"test"}'' (zero_Check Epoch)
     = Inr ((zero_Check Epoch)\<lparr>Name := ''test''\<rparr>)
   \<and> \<not> is_id_key ''name''
   \<and> fst (Create (stub_env (reply 201 ''{"name":"test"}'')) test_check world0) = Return ([], None)\<close>
proof -
  define body where \<open>body = ''{"name":"test"}''\<close>
  define E where "E = stub_env (reply 201 body)"
  have z: "zero_time E = Epoch" by (simp add: E_def stub_env_def)
  have m: "json_Marshal E test_check = Inr test_data"
    unfolding E_def by (rule stub_Marshal)
  have c: "fst (MakeAPICall E ''POST'' ''checks'' test_data world0) = Return (201, body, None)"
    unfolding E_def using stub_call [OF checks_path] by (simp add: reply_def)
  have s: "scan E body = Inr (JObj [(''name'', JStr ''test'')])"
    unfolding E_def body_def by (rule stub_scan_documents)
  have d: "Decode E body (zero_Check (zero_time E)) = Inr ((zero_Check Epoch)\<lparr>Name := ''test''\<rparr>)"
    by (simp add: s z decode_eval)
  have n: "\<forall>(k, j) \<in> set [(''name'', JStr ''test'')]. is_id_key k \<longrightarrow> (\<forall>s. j = JStr s \<longrightarrow> s = [])"
    by (simp add: is_id_key_def)
  have k: "\<not> is_id_key ''name''" by (simp add: is_id_key_def)
  show ?thesis
    using m c s d k Create_without_id [OF m c s d n]
    unfolding z unfolding E_def body_def by simp
qed

text \<open>
  C10 as stated fails: the object \<open>{"ID":"abc"}\<close> has no member with the key \<open>id\<close>,
  the decoder stores it without error, and Create returns \<open>abc\<close>, because the decoder
  matches keys with field names without regard to case.
\<close>

theorem Create_without_id_counterexample:
  \<open>fst (MakeAPICall (stub_env (reply 201 ''{"ID":"abc"}'')) ''POST'' ''checks'' test_data world0)
     = Return (201, ''{"ID":"abc"}'', None)
   \<and> scan (stub_env (reply 201 ''{"ID":"abc"}'')) ''{"ID":"abc"}'' = Inr (JObj [(''ID'', JStr ''abc'')])
   \<and> map_of [(''ID'', JStr ''abc'')] ''id'' = None
   \<and> fst (Create (stub_env (reply 201 ''{"ID":"abc"}'')) test_check world0) = Return (''abc'', None)\<close>
proof -
  define body where \<open>body = ''{"ID":"abc"}''\<close>
  define E where "E = stub_env (reply 201 body)"
  have z: "zero_time E = Epoch" by (simp add: E_def stub_env_def)
  have m: "json_Marshal E test_check = Inr test_data"
    unfolding E_def by (rule stub_Marshal)
  have c: "fst (MakeAPICall E ''POST'' ''checks'' test_data world0) = Return (201, body, None)"
    unfolding E_def using stub_call [OF checks_path] by (simp add: reply_def)
  have s: "scan E body = Inr (JObj [(''ID'', JStr ''abc'')])"
    unfolding E_def body_def by (rule stub_scan_documents)
  have d: "Decode E body (zero_Check (zero_time E)) = Inr ((zero_Check Epoch)\<lparr>Check.ID := ''abc''\<rparr>)"
    by (simp add: s z decode_eval)
  have "fst (Create E test_check world0) = Return (''abc'', None)"
    using Create_created [OF m c] d by simp
  then show ?thesis using c s unfolding E_def body_def by simp
qed

section \<open>Which requests the operations issue\<close>

lemma Create_sent:
  "sent (snd (Create E check W)) =
     (case json_Marshal E check of
        Inl err \<Rightarrow> sent W
      | Inr data \<Rightarrow>
          if sendable E (client W) ''POST'' ''checks'' data
          then sent W @ [request_for (client W) ''POST'' ''checks'' data] else sent W)"
  by (simp add: Create_world MakeAPICall_sent split: sum.splits)

lemma Update_sent:
  "sent (snd (Update E i check W)) =
     (case json_Marshal E check of
        Inl err \<Rightarrow> sent W
      | Inr data \<Rightarrow>
          if sendable E (client W) ''PUT'' (''checks/'' @ i) data
          then sent W @ [request_for (client W) ''PUT'' (''checks/'' @ i) data] else sent W)"
  by (simp add: Update_world MakeAPICall_sent split: sum.splits)






section \<open>Tracing and the result of a call\<close>









section \<open>The ID on the wire\<close>

lemma Check_members_id:
  "[kv \<leftarrow> Check_members created updated c. fst kv = ''id''] = [(''id'', JStr (Check.ID c))]"
  by (simp add: Check_members_def omitempty_string_def omitempty_int_def omitempty_slice_def
      split: option.splits list.splits)

lemma json_Marshal_Inr:
  assumes "json_Marshal E c = Inr data"
  shows "\<exists>created updated. data = encode E (JObj (Check_members created updated c))"
  using assms by (auto simp: json_Marshal_def enc_Check_def split: sum.splits)

text \<open>
  C8, as the code has it.  The field \<open>ID\<close> has the tag \<open>json:"id"\<close>, without
  \<open>omitempty\<close>: for every Check that Create or Update can encode, the body of the
  outgoing request is the encoding of a JSON object with exactly one member \<open>id\<close>, and
  its value is the ID of the Check as the caller passed it, the empty string when the
  ID is empty.
\<close>

theorem outgoing_body_carries_id:
  assumes "json_Marshal E check = Inr data"
  shows "(\<exists>created updated.
            data = encode E (JObj (Check_members created updated check))
            \<and> [kv \<leftarrow> Check_members created updated check. fst kv = ''id'']
                = [(''id'', JStr (Check.ID check))])
         \<and> (\<forall>r \<in> set (sent (snd (Create E check W))). r \<in> set (sent W) \<or> req_body r = data)
         \<and> (\<forall>r \<in> set (sent (snd (Update E ID' check W))). r \<in> set (sent W) \<or> req_body r = data)"
proof -
  have "\<exists>created updated.
            data = encode E (JObj (Check_members created updated check))
            \<and> [kv \<leftarrow> Check_members created updated check. fst kv = ''id'']
                = [(''id'', JStr (Check.ID check))]"
    using json_Marshal_Inr [OF assms] Check_members_id by blast
  moreover have "\<forall>r \<in> set (sent (snd (Create E check W))). r \<in> set (sent W) \<or> req_body r = data"
    by (auto simp: Create_sent assms request_for_def split: if_splits)
  moreover have "\<forall>r \<in> set (sent (snd (Update E ID' check W))). r \<in> set (sent W) \<or> req_body r = data"
    by (auto simp: Update_sent assms request_for_def split: if_splits)
  ultimately show ?thesis by blast
qed

theorem outgoing_body_carries_id_witness:
  "json_Marshal (stub_env (reply 201 [])) test_check = Inr test_data
   \<and> test_data = print_json (JObj (Check_members stub_time_text stub_time_text test_check))
   \<and> [kv \<leftarrow> Check_members stub_time_text stub_time_text test_check. fst kv = ''id'']
       = [(''id'', JStr [])]
   \<and> sent world0 = []
   \<and> map req_body (sent (snd (Create (stub_env (reply 201 [])) test_check world0))) = [test_data]
   \<and> map req_body (sent (snd (Update (stub_env (reply 201 [])) ''abc'' test_check world0)))
       = [test_data]"
proof -
  have m: "json_Marshal (stub_env (reply 201 [])) test_check = Inr test_data"
    by (rule stub_Marshal)
  have i: "[kv \<leftarrow> Check_members stub_time_text stub_time_text test_check. fst kv = ''id'']
       = [(''id'', JStr [])]"
    by (simp add: Check_members_id test_check_def zero_Check_def)
  have w: "sent world0 = []" by (simp add: world0_def)
  have p: "CHR '' '' \<notin> set (''checks/'' @ ''abc'')" by simp
  obtain r where c: "sent (snd (Create (stub_env (reply 201 [])) test_check world0)) = [r]"
    using stub_sendable(1) [OF checks_path, of "reply 201 []" "''POST''" test_data]
    by (simp add: Create_sent m w)
  obtain r' where u: "sent (snd (Update (stub_env (reply 201 [])) ''abc'' test_check world0)) = [r']"
    using stub_sendable(1) [OF p, of "reply 201 []" "''PUT''" test_data]
    by (simp add: Update_sent m w)
  have "req_body r = test_data \<and> req_body r' = test_data"
    using outgoing_body_carries_id [OF m, of world0 "''abc''"] c u w by simp
  then show ?thesis
    using m i w c u by (simp add: test_data_def)
qed

text \<open>
  C8 as stated fails: Create encodes the Check as it is, and a Check whose ID the caller
  has set goes out with that ID in the request body.
\<close>

theorem outgoing_body_carries_id_counterexample:
  \<open>map req_body (sent (snd (Create (stub_env (reply 201 [])) named_check world0)))
     = [print_json (JObj (Check_members stub_time_text stub_time_text named_check))]
   \<and> map_of (Check_members stub_time_text stub_time_text named_check) ''id'' = Some (JStr ''abc'')
   \<and> take 12 (print_json (JObj (Check_members stub_time_text stub_time_text named_check)))
       = ''{"id":"abc",''\<close>
proof -
  have m: "json_Marshal (stub_env (reply 201 [])) named_check
             = Inr (print_json (JObj (Check_members stub_time_text stub_time_text named_check)))"
    by (simp add: json_Marshal_def enc_Check_def stub_env_def stub_Time_MarshalJSON_def
        named_check_def test_check_def zero_Check_def)
  have s: "map req_body (sent (snd (Create (stub_env (reply 201 [])) named_check world0)))
     = [print_json (JObj (Check_members stub_time_text stub_time_text named_check))]"
    using stub_sendable(1) [OF checks_path, of "reply 201 []" "''POST''"
        "print_json (JObj (Check_members stub_time_text stub_time_text named_check))"]
    by (simp add: Create_sent m request_for_def world0_def del: print_json.simps)
  have i: "map_of (Check_members stub_time_text stub_time_text named_check) ''id'' = Some (JStr ''abc'')"
    by (simp add: Check_members_def named_check_def)
  have t: \<open>take 12 (print_json (JObj (Check_members stub_time_text stub_time_text named_check)))
       = ''{"id":"abc",''\<close>
    by (simp add: Check_members_def named_check_def print_string_def escape_def)
  show ?thesis using s i t by (simp del: print_json.simps)
qed

end
